theory Spec2Isabelle
  imports Complex_Main "HOL-Library.Word"
begin

section \<open>The T265 avoidance script: shared telemetry state and MAVLink senders\<close>

text \<open>
  The script \<^verbatim>\<open>scripts/t265_avoidance.py\<close> keeps its telemetry in module-level
  globals, written by the acquisition loop and by message listeners, and read by
  three scheduled senders. The globals become one record, every function that
  declares them \<^verbatim>\<open>global\<close> takes the record and returns it updated, and
  \<^verbatim>\<open>vehicle.send_mavlink\<close> appends the encoded message to the field \<open>sent\<close>.
  Python floats are modelled as reals (no rounding, no infinities); calls to
  \<^verbatim>\<open>print\<close> and \<^verbatim>\<open>vehicle.flush\<close> leave the record unchanged and are not written.
\<close>

datatype error = IndexError | ValueError | TypeError

type_synonym mat = "real list list"

record vector3 =
  vec_x :: real
  vec_y :: real
  vec_z :: real

record quaternion =
  quat_w :: real
  quat_x :: real
  quat_y :: real
  quat_z :: real

text \<open>The pose sample of the camera SDK, with the fields the script reads.\<close>

record pose_data =
  translation :: vector3
  rotation :: quaternion
  tracker_confidence :: nat

text \<open>
  The messages the script encodes through \<^verbatim>\<open>vehicle.message_factory\<close>, each with the
  arguments in the order of the call.
\<close>

datatype mavlink_message =
    Obstacle_Distance int nat "16 word list" nat nat nat real real
  | Distance_Sensor nat nat nat int nat nat nat nat
  | Vision_Position_Estimate int real real real real real real
  | Vision_Position_Delta nat nat "real list" "real list" real
  | Statustext nat string

record state =
  current_time :: int
  distances :: "16 word list"
  data :: "pose_data option"
  current_confidence :: "nat option"
  H_aeroRef_aeroBody :: "mat option"
  heading_north_yaw :: "real option"
  scale_factor :: real
  scale_thread_alive :: bool
  sent :: "mavlink_message list"

text \<open>
  The globals as the module leaves them when the scheduler starts: \<^verbatim>\<open>np.zeros((72,))\<close>
  for the distances, \<^verbatim>\<open>None\<close> for the four values assigned before the scheduler is
  created, and a scale factor of 1.0.
\<close>

definition init_state :: state where
  "init_state = \<lparr> current_time = 0, distances = replicate 72 0, data = None,
     current_confidence = None, H_aeroRef_aeroBody = None, heading_north_yaw = None,
     scale_factor = 1.0, scale_thread_alive = True, sent = [] \<rparr>"

definition send_mavlink :: "mavlink_message \<Rightarrow> state \<Rightarrow> state" where
  "send_mavlink msg s = s\<lparr>sent := sent s @ [msg]\<rparr>"

definition pose_data_confidence_level :: "string list" where
  "pose_data_confidence_level = [''Failed'', ''Low'', ''Medium'', ''High'']"

text \<open>Indexing a tuple with a non-negative index: out of range raises \<^verbatim>\<open>IndexError\<close>.\<close>

definition tuple_get :: "'a list \<Rightarrow> nat \<Rightarrow> error + 'a" where
  "tuple_get xs i = (if i < length xs then Inr (xs ! i) else Inl IndexError)"

subsection \<open>Distance reports\<close>

text \<open>The slice \<^verbatim>\<open>a[lo:hi]\<close> for non-negative bounds.\<close>

definition slice :: "nat \<Rightarrow> nat \<Rightarrow> 'a list \<Rightarrow> 'a list" where
  "slice lo hi xs = take (hi - lo) (drop lo xs)"

text \<open>
  \<^verbatim>\<open>np.mean\<close> of an array of unsigned 16-bit values is computed in double precision;
  of an empty array it is NaN, which is \<open>None\<close> here.
\<close>

definition np_mean :: "16 word list \<Rightarrow> real option" where
  "np_mean xs = (if xs = [] then None
                 else Some (real (sum_list (map unat xs)) / real (length xs)))"

text \<open>\<^verbatim>\<open>int(x)\<close> on a float truncates towards zero; on NaN it raises \<^verbatim>\<open>ValueError\<close>.\<close>

definition py_int :: "real option \<Rightarrow> error + int" where
  "py_int x = (case x of None \<Rightarrow> Inl ValueError
               | Some v \<Rightarrow> Inr (if 0 \<le> v then \<lfloor>v\<rfloor> else \<lceil>v\<rceil>))"

definition obstacle_distance_message :: "state \<Rightarrow> mavlink_message" where
  "obstacle_distance_message s =
     Obstacle_Distance (current_time s) 0 (distances s) 0 5 65 1.25 (- 45)"

definition send_obstacle_distance_message :: "state \<Rightarrow> state" where
  "send_obstacle_distance_message s = send_mavlink (obstacle_distance_message s) s"

definition send_distance_sensor_message :: "state \<Rightarrow> error + state" where
  "send_distance_sensor_message s =
     (case py_int (np_mean (slice 33 38 (distances s))) of
        Inl e \<Rightarrow> Inl e
      | Inr curr_dist \<Rightarrow> Inr (send_mavlink (Distance_Sensor 0 10 65 curr_dist 0 0 0 0) s))"

subsection \<open>Pose and confidence reports\<close>

text \<open>
  \<^verbatim>\<open>tf.euler_from_matrix(H, 'sxyz')\<close> belongs to the \<^verbatim>\<open>transformations\<close> package; the
  sender takes it as the parameter \<open>euler_from_matrix\<close>.
\<close>

definition send_vision_position_message ::
  "(mat \<Rightarrow> real \<times> real \<times> real) \<Rightarrow> state \<Rightarrow> state" where
  "send_vision_position_message euler_from_matrix s =
     (case H_aeroRef_aeroBody s of
        None \<Rightarrow> s
      | Some H \<Rightarrow>
          (case euler_from_matrix H of (roll, pitch, yaw) \<Rightarrow>
             send_mavlink (Vision_Position_Estimate (current_time s)
               (H ! 0 ! 3) (H ! 1 ! 3) (H ! 2 ! 3) roll pitch yaw) s))"

definition send_confidence_level_dummy_message :: "state \<Rightarrow> error + state" where
  "send_confidence_level_dummy_message s =
     (case data s of
        None \<Rightarrow> Inr s
      | Some d \<Rightarrow>
          (case tuple_get pose_data_confidence_level (tracker_confidence d) of
             Inl e \<Rightarrow> Inl e
           | Inr level \<Rightarrow>
               (let s1 = send_mavlink (Vision_Position_Delta 0 0 [0, 0, 0] [0, 0, 0]
                           (real (tracker_confidence d) * 100 / 3)) s
                in if current_confidence s1 = None
                      \<or> current_confidence s1 \<noteq> Some (tracker_confidence d)
                   then Inr (send_mavlink (Statustext 3 (''Tracking confidence: '' @ level))
                               (s1\<lparr>current_confidence := Some (tracker_confidence d)\<rparr>))
                   else Inr s1)))"

subsection \<open>Listeners and the operator's input\<close>

text \<open>
  \<^verbatim>\<open>att_msg_callback\<close> receives the yaw of an ATTITUDE message. Its two branches
  differ in the line they print only.
\<close>

definition att_msg_callback :: "real \<Rightarrow> state \<Rightarrow> state" where
  "att_msg_callback yaw s =
     (if heading_north_yaw s = None
      then s\<lparr>heading_north_yaw := Some yaw\<rparr>
      else s\<lparr>heading_north_yaw := Some yaw\<rparr>)"

text \<open>
  One turn of the loop of \<^verbatim>\<open>scale_update\<close>: the line the operator typed is given by
  what \<^verbatim>\<open>float\<close> makes of it, \<open>Some v\<close> or, when it raises \<^verbatim>\<open>ValueError\<close>, \<open>None\<close>;
  the exception ends the thread and leaves the scale factor as it is.
\<close>

definition scale_update_line :: "real option \<Rightarrow> state \<Rightarrow> state" where
  "scale_update_line line s =
     (if scale_thread_alive s
      then (case line of None \<Rightarrow> s\<lparr>scale_thread_alive := False\<rparr>
            | Some v \<Rightarrow> s\<lparr>scale_factor := v\<rparr>)
      else s)"

text \<open>
  The loop itself, over the lines typed so far; with no line left the thread waits in
  \<^verbatim>\<open>input\<close>.
\<close>

fun scale_update :: "real option list \<Rightarrow> state \<Rightarrow> state" where
  "scale_update [] s = s"
| "scale_update (line # lines) s = scale_update lines (scale_update_line line s)"


section \<open>Geometry: homogeneous transforms\<close>

text \<open>
  A numpy array of shape (4, 4) is the list of its rows; every array the script
  passes to \<^verbatim>\<open>dot\<close> has this shape.
\<close>

definition identity4 :: mat where
  "identity4 = [[1, 0, 0, 0], [0, 1, 0, 0], [0, 0, 1, 0], [0, 0, 0, 1]]"

definition dot :: "mat \<Rightarrow> mat \<Rightarrow> mat" where
  "dot A B = map (\<lambda>row. map (\<lambda>j. sum_list (map2 (*) row (map (\<lambda>r. r ! j) B))) [0..<4]) A"

text \<open>The assignment \<^verbatim>\<open>H[i][j] = v\<close>.\<close>

definition set_elem :: "mat \<Rightarrow> nat \<Rightarrow> nat \<Rightarrow> real \<Rightarrow> mat" where
  "set_elem H i j v = H[i := (H ! i)[j := v]]"

text \<open>
  Two functions of the \<^verbatim>\<open>transformations\<close> package, after its published source.
  \<^verbatim>\<open>quaternion_matrix\<close> takes the quaternion as \<open>(w, x, y, z)\<close>, returns the identity
  below the threshold \<^verbatim>\<open>_EPS = 4 * finfo(float).eps\<close> and normalises otherwise;
  \<^verbatim>\<open>euler_matrix\<close> is written out for the axes \<^verbatim>\<open>'sxyz'\<close>, the only ones the script
  uses.
\<close>

definition EPS :: real where
  "EPS = 4 / 2 ^ 52"

definition quaternion_matrix :: "real \<times> real \<times> real \<times> real \<Rightarrow> mat" where
  "quaternion_matrix q =
     (case q of (w, x, y, z) \<Rightarrow>
        (let n = w * w + x * x + y * y + z * z in
         if n < EPS then identity4
         else
           (let k = sqrt (2 / n); q0 = w * k; q1 = x * k; q2 = y * k; q3 = z * k in
            [[1 - q2 * q2 - q3 * q3, q1 * q2 - q3 * q0, q1 * q3 + q2 * q0, 0],
             [q1 * q2 + q3 * q0, 1 - q1 * q1 - q3 * q3, q2 * q3 - q1 * q0, 0],
             [q1 * q3 - q2 * q0, q2 * q3 + q1 * q0, 1 - q1 * q1 - q2 * q2, 0],
             [0, 0, 0, 1]])))"

definition euler_matrix :: "real \<Rightarrow> real \<Rightarrow> real \<Rightarrow> mat" where
  "euler_matrix ai aj ak =
     (let si = sin ai; sj = sin aj; sk = sin ak;
          ci = cos ai; cj = cos aj; ck = cos ak;
          cc = ci * ck; cs = ci * sk; sc = si * ck; ss = si * sk in
      [[cj * ck, sj * sc - cs, sj * cc + ss, 0],
       [cj * sk, sj * ss + cc, sj * cs - sc, 0],
       [- sj, cj * si, cj * ci, 0],
       [0, 0, 0, 1]])"

text \<open>
  \<^verbatim>\<open>np.linalg.inv\<close> is called on two arrays only: the mount transform and the body
  offset, both a rotation block with orthonormal rows beside a translation column,
  above the row \<open>[0, 0, 0, 1]\<close>. For such an array the inverse is the transposed block
  beside the translation carried back through it; the lemmas \<open>linalg_inv_mount\<close> and
  \<open>linalg_inv_offset\<close> check that this is the inverse at both arguments.
\<close>

definition linalg_inv :: "mat \<Rightarrow> mat" where
  "linalg_inv H =
     (let r = (\<lambda>i j. H ! i ! j); t = (\<lambda>i. H ! i ! 3) in
      [[r 0 0, r 1 0, r 2 0, - (r 0 0 * t 0 + r 1 0 * t 1 + r 2 0 * t 2)],
       [r 0 1, r 1 1, r 2 1, - (r 0 1 * t 0 + r 1 1 * t 1 + r 2 1 * t 2)],
       [r 0 2, r 1 2, r 2 2, - (r 0 2 * t 0 + r 1 2 * t 1 + r 2 2 * t 2)],
       [0, 0, 0, 1]])"

subsection \<open>Configuration and the mount transforms\<close>

text \<open>
  The module-level settings. \<open>arg_camera_orientation\<close> is the command-line value,
  \<open>None\<close> when the option is absent; \<open>extrinsics_T0\<close> is the first component of the
  translation between the two fisheye sensors, read from the camera.
\<close>

record config =
  arg_camera_orientation :: "int option"
  body_offset_enabled :: int
  body_offset_x :: real
  body_offset_y :: real
  body_offset_z :: real
  compass_enabled :: int
  scale_calib_enable :: bool
  extrinsics_T0 :: real

definition camera_orientation_default :: int where
  "camera_orientation_default = 0"

text \<open>\<^verbatim>\<open>if not camera_orientation\<close> holds for \<^verbatim>\<open>None\<close> and for 0.\<close>

definition camera_orientation :: "config \<Rightarrow> int" where
  "camera_orientation cfg =
     (case arg_camera_orientation cfg of
        None \<Rightarrow> camera_orientation_default
      | Some n \<Rightarrow> if n = 0 then camera_orientation_default else n)"

text \<open>
  The settings as the file has them when no option is given on the command line; the
  baseline of 6.4 cm stands for the value the camera reports.
\<close>

definition default_config :: config where
  "default_config = \<lparr> arg_camera_orientation = None, body_offset_enabled = 0,
     body_offset_x = 0.05, body_offset_y = 0, body_offset_z = 0, compass_enabled = 0,
     scale_calib_enable = False, extrinsics_T0 = - 0.064 \<rparr>"

definition H_aeroRef_T265Ref :: "int \<Rightarrow> mat" where
  "H_aeroRef_T265Ref orientation =
     (if orientation = 0 then [[0, 0, - 1, 0], [1, 0, 0, 0], [0, - 1, 0, 0], [0, 0, 0, 1]]
      else if orientation = 1 then [[0, 0, - 1, 0], [1, 0, 0, 0], [0, - 1, 0, 0], [0, 0, 0, 1]]
      else [[0, 0, - 1, 0], [1, 0, 0, 0], [0, - 1, 0, 0], [0, 0, 0, 1]])"

definition H_T265body_aeroBody :: "int \<Rightarrow> mat" where
  "H_T265body_aeroBody orientation =
     (if orientation = 0 then linalg_inv (H_aeroRef_T265Ref orientation)
      else if orientation = 1 then [[0, 1, 0, 0], [1, 0, 0, 0], [0, 0, - 1, 0], [0, 0, 0, 1]]
      else linalg_inv (H_aeroRef_T265Ref orientation))"

subsection \<open>The pose branch of the acquisition loop\<close>

definition H_T265Ref_T265body :: "real \<Rightarrow> pose_data \<Rightarrow> mat" where
  "H_T265Ref_T265body scale d =
     (let H0 = quaternion_matrix (quat_w (rotation d), quat_x (rotation d),
                                  quat_y (rotation d), quat_z (rotation d));
          H1 = set_elem H0 0 3 (vec_x (translation d) * scale);
          H2 = set_elem H1 1 3 (vec_y (translation d) * scale)
      in set_elem H2 2 3 (vec_z (translation d) * scale))"

definition H_body_camera :: "config \<Rightarrow> mat" where
  "H_body_camera cfg =
     (let H0 = euler_matrix 0 0 0;
          H1 = set_elem H0 0 3 (body_offset_x cfg);
          H2 = set_elem H1 1 3 (body_offset_y cfg)
      in set_elem H2 2 3 (body_offset_z cfg))"

text \<open>
  The transform the acquisition loop computes from a pose sample, as a function of
  what it reads: the settings, the heading reference and the scale factor. With the
  compass enabled and no heading received yet, \<^verbatim>\<open>tf.euler_matrix(0, 0, None)\<close> raises
  \<^verbatim>\<open>TypeError\<close>.
\<close>

definition navigation_pose :: "config \<Rightarrow> real option \<Rightarrow> real \<Rightarrow> pose_data \<Rightarrow> error + mat" where
  "navigation_pose cfg heading scale d =
     (let H = dot (H_aeroRef_T265Ref (camera_orientation cfg))
                (dot (H_T265Ref_T265body scale d)
                     (H_T265body_aeroBody (camera_orientation cfg)));
          H' = (if body_offset_enabled cfg = 1
                then dot (H_body_camera cfg) (dot H (linalg_inv (H_body_camera cfg)))
                else H)
      in if compass_enabled cfg = 1
         then (case heading of
                 None \<Rightarrow> Inl TypeError
               | Some yaw \<Rightarrow> Inr (dot H' (euler_matrix 0 0 yaw)))
         else Inr H')"

text \<open>The body of \<^verbatim>\<open>if pose:\<close>, with the clock reading \<open>now\<close>.\<close>

definition process_pose :: "config \<Rightarrow> int \<Rightarrow> pose_data \<Rightarrow> state \<Rightarrow> error + state" where
  "process_pose cfg now d s =
     (case navigation_pose cfg (heading_north_yaw s) (scale_factor s) d of
        Inl e \<Rightarrow> Inl e
      | Inr H \<Rightarrow> Inr (s\<lparr>current_time := now, data := Some d, H_aeroRef_aeroBody := Some H\<rparr>))"

section \<open>Stereo depth: from the disparity map to the distances\<close>

type_synonym vec3 = "real \<times> real \<times> real"

definition window_size :: nat where "window_size = 5"
definition min_disp :: nat where "min_disp = 16"
definition num_disp :: nat where "num_disp = 112 - min_disp"
definition max_disp :: nat where "max_disp = min_disp + num_disp"

definition stereo_fov_rad :: real where "stereo_fov_rad = 90 * (pi / 180)"
definition stereo_height_px :: nat where "stereo_height_px = 300"
definition stereo_focal_px :: real where
  "stereo_focal_px = real stereo_height_px / 2 / tan (stereo_fov_rad / 2)"
definition stereo_width_px :: nat where "stereo_width_px = stereo_height_px + max_disp"
definition stereo_cx :: real where "stereo_cx = (real stereo_height_px - 1) / 2 + real max_disp"
definition stereo_cy :: real where "stereo_cy = (real stereo_height_px - 1) / 2"

definition Q :: "real \<Rightarrow> mat" where
  "Q T0 = [[1, 0, 0, - (stereo_cx - real max_disp)],
           [0, 1, 0, - stereo_cy],
           [0, 0, 0, stereo_focal_px],
           [0, 0, - 1 / T0, 0]]"

text \<open>
  \<^verbatim>\<open>stereo.compute\<close> returns fixed-point disparities, sixteen units to the pixel; the
  script converts them to float and divides by 16, then drops the first \<open>max_disp\<close>
  columns of every row.
\<close>

definition to_pixel_disparity :: "int list list \<Rightarrow> real list list" where
  "to_pixel_disparity raw = map (map (\<lambda>v. real_of_int v / 16)) raw"

definition crop_disparity :: "real list list \<Rightarrow> real list list" where
  "crop_disparity disparity = map (drop max_disp) disparity"

text \<open>
  \<^verbatim>\<open>cv2.reprojectImageTo3D\<close>, after the documentation of OpenCV: the pixel in column
  \<open>x\<close> of row \<open>y\<close> with disparity \<open>d\<close> goes to \<open>(X / W, Y / W, Z / W)\<close> where
  \<open>[X, Y, Z, W] = Q [x, y, d, 1]\<close>. Where \<open>W = 0\<close> the float result is not finite and
  has no counterpart in this model.
\<close>

definition reproject_pixel :: "mat \<Rightarrow> real \<Rightarrow> real \<Rightarrow> real \<Rightarrow> vec3" where
  "reproject_pixel q x y d =
     (let h = (\<lambda>i. q ! i ! 0 * x + q ! i ! 1 * y + q ! i ! 2 * d + q ! i ! 3)
      in (h 0 / h 3, h 1 / h 3, h 2 / h 3))"

definition reprojectImageTo3D :: "real list list \<Rightarrow> mat \<Rightarrow> vec3 list list" where
  "reprojectImageTo3D disparity q =
     map (\<lambda>(y, row). map (\<lambda>(x, d). reproject_pixel q (real x) (real y) d)
                          (zip [0..<length row] row))
         (zip [0..<length disparity] disparity)"

definition linalg_norm :: "vec3 \<Rightarrow> real" where
  "linalg_norm p = (case p of (a, b, c) \<Rightarrow> sqrt (a * a + b * b + c * c))"

text \<open>
  Storing a float into the \<^verbatim>\<open>uint16\<close> array is the C cast of NumPy: the value is
  converted to a signed 32-bit integer, the fraction dropped, and the low sixteen bits
  are kept. Outside the 32-bit range the conversion has no defined result; the x86
  instruction then yields \<^verbatim>\<open>0x80000000\<close>, whose low sixteen bits are 0, and that is
  what is written here. The argument is the product over the reals: the script forms
  the norm and the product in floating point, so a product within rounding of an
  integer can be stored as the neighbouring integer.
\<close>

definition to_uint16 :: "real \<Rightarrow> 16 word" where
  "to_uint16 v =
     (let t = (if 0 \<le> v then \<lfloor>v\<rfloor> else \<lceil>v\<rceil>)
      in if - (2 ^ 31) \<le> t \<and> t < 2 ^ 31 then word_of_int t else 0)"

text \<open>
  One turn of \<^verbatim>\<open>for i in range(72)\<close>: the sample is \<^verbatim>\<open>points_3D[i * 4, 150, :]\<close>;
  an index outside either array raises \<^verbatim>\<open>IndexError\<close>.
\<close>

definition sample_index :: "nat \<Rightarrow> nat" where
  "sample_index i = i * 4"

definition sample_step :: "vec3 list list \<Rightarrow> nat \<Rightarrow> 16 word list \<Rightarrow> error + 16 word list" where
  "sample_step points_3D i ds =
     (if sample_index i < length points_3D \<and> 150 < length (points_3D ! sample_index i)
         \<and> i < length ds
      then Inr (ds[i := to_uint16 (linalg_norm (points_3D ! sample_index i ! 150) * 100)])
      else Inl IndexError)"

fun sample_loop :: "vec3 list list \<Rightarrow> nat list \<Rightarrow> 16 word list \<Rightarrow> error + 16 word list" where
  "sample_loop points_3D [] ds = Inr ds"
| "sample_loop points_3D (i # is) ds =
     (case sample_step points_3D i ds of
        Inl e \<Rightarrow> Inl e
      | Inr ds' \<Rightarrow> sample_loop points_3D is ds')"

text \<open>The whole loop, writing into the global array.\<close>

definition store_distances :: "vec3 list list \<Rightarrow> state \<Rightarrow> error + state" where
  "store_distances points_3D s =
     (case sample_loop points_3D [0..<72] (distances s) of
        Inl e \<Rightarrow> Inl e
      | Inr ds \<Rightarrow> Inr (s\<lparr>distances := ds\<rparr>))"

text \<open>The depth branch of the acquisition loop, from the output of the matcher on.\<close>

definition process_depth :: "config \<Rightarrow> int list list \<Rightarrow> state \<Rightarrow> error + state" where
  "process_depth cfg raw s =
     (let disparity = crop_disparity (to_pixel_disparity raw);
          points_3D = reprojectImageTo3D disparity (Q (extrinsics_T0 cfg))
      in store_distances points_3D s)"

section \<open>The program as a sequence of events\<close>

text \<open>
  What happens to the shared state, one event at a time: a frame set from the camera
  (the clock, the pose sample when there is one, the output of the matcher), a tick of
  one of the three scheduled jobs, an ATTITUDE message and a line of operator input.
  An exception in the acquisition loop ends the program; one in a scheduled job is
  caught by the scheduler, and both jobs that can raise do so before they change
  anything. The ATTITUDE listener is registered when the compass is enabled, the
  input thread is started when scale calibration is.
\<close>

datatype event =
    Frames int "pose_data option" "int list list"
  | Tick_Vision
  | Tick_Confidence
  | Tick_Distance
  | Attitude real
  | Operator_Line "real option"

definition process_frames ::
  "config \<Rightarrow> int \<Rightarrow> pose_data option \<Rightarrow> int list list \<Rightarrow> state \<Rightarrow> error + state" where
  "process_frames cfg now pose raw s =
     (case pose of
        None \<Rightarrow> process_depth cfg raw s
      | Some d \<Rightarrow>
          (case process_pose cfg now d s of
             Inl e \<Rightarrow> Inl e
           | Inr s1 \<Rightarrow> process_depth cfg raw s1))"

definition caught :: "state \<Rightarrow> error + state \<Rightarrow> state" where
  "caught s r = (case r of Inl e \<Rightarrow> s | Inr s' \<Rightarrow> s')"

fun step :: "config \<Rightarrow> (mat \<Rightarrow> real \<times> real \<times> real) \<Rightarrow> event \<Rightarrow> state \<Rightarrow> error + state" where
  "step cfg efm (Frames now pose raw) s = process_frames cfg now pose raw s"
| "step cfg efm Tick_Vision s = Inr (send_vision_position_message efm s)"
| "step cfg efm Tick_Confidence s = Inr (caught s (send_confidence_level_dummy_message s))"
| "step cfg efm Tick_Distance s = Inr (caught s (send_distance_sensor_message s))"
| "step cfg efm (Attitude yaw) s =
     Inr (if compass_enabled cfg = 1 then att_msg_callback yaw s else s)"
| "step cfg efm (Operator_Line line) s =
     Inr (if scale_calib_enable cfg then scale_update_line line s else s)"

fun run :: "config \<Rightarrow> (mat \<Rightarrow> real \<times> real \<times> real) \<Rightarrow> event list \<Rightarrow> state \<Rightarrow> error + state" where
  "run cfg efm [] s = Inr s"
| "run cfg efm (ev # evs) s =
     (case step cfg efm ev s of Inl e \<Rightarrow> Inl e | Inr s' \<Rightarrow> run cfg efm evs s')"

section \<open>Notions the properties are stated with\<close>

type_synonym mat3 = "vec3 \<times> vec3 \<times> vec3"

definition rotation_block :: "mat \<Rightarrow> mat3" where
  "rotation_block H =
     ((H ! 0 ! 0, H ! 0 ! 1, H ! 0 ! 2),
      (H ! 1 ! 0, H ! 1 ! 1, H ! 1 ! 2),
      (H ! 2 ! 0, H ! 2 ! 1, H ! 2 ! 2))"


definition identity3 :: mat3 where
  "identity3 = ((1, 0, 0), (0, 1, 0), (0, 0, 1))"

fun mat3_mul :: "mat3 \<Rightarrow> mat3 \<Rightarrow> mat3" where
  "mat3_mul ((a11, a12, a13), (a21, a22, a23), (a31, a32, a33))
            ((b11, b12, b13), (b21, b22, b23), (b31, b32, b33)) =
     ((a11 * b11 + a12 * b21 + a13 * b31, a11 * b12 + a12 * b22 + a13 * b32,
       a11 * b13 + a12 * b23 + a13 * b33),
      (a21 * b11 + a22 * b21 + a23 * b31, a21 * b12 + a22 * b22 + a23 * b32,
       a21 * b13 + a22 * b23 + a23 * b33),
      (a31 * b11 + a32 * b21 + a33 * b31, a31 * b12 + a32 * b22 + a33 * b32,
       a31 * b13 + a32 * b23 + a33 * b33))"

fun mat3_transpose :: "mat3 \<Rightarrow> mat3" where
  "mat3_transpose ((a11, a12, a13), (a21, a22, a23), (a31, a32, a33)) =
     ((a11, a21, a31), (a12, a22, a32), (a13, a23, a33))"

fun mat3_det :: "mat3 \<Rightarrow> real" where
  "mat3_det ((a11, a12, a13), (a21, a22, a23), (a31, a32, a33)) =
     a11 * (a22 * a33 - a23 * a32) - a12 * (a21 * a33 - a23 * a31)
       + a13 * (a21 * a32 - a22 * a31)"

fun mat3_apply :: "mat3 \<Rightarrow> vec3 \<Rightarrow> vec3" where
  "mat3_apply ((a11, a12, a13), (a21, a22, a23), (a31, a32, a33)) (x, y, z) =
     (a11 * x + a12 * y + a13 * z, a21 * x + a22 * y + a23 * z, a31 * x + a32 * y + a33 * z)"

definition orthonormal :: "mat3 \<Rightarrow> bool" where
  "orthonormal R \<longleftrightarrow>
     mat3_mul R (mat3_transpose R) = identity3 \<and> mat3_mul (mat3_transpose R) R = identity3"

text \<open>A proper rotation: orthonormal with determinant 1.\<close>

definition is_rotation :: "mat3 \<Rightarrow> bool" where
  "is_rotation R \<longleftrightarrow> orthonormal R \<and> mat3_det R = 1"

definition unit_quaternion :: "quaternion \<Rightarrow> bool" where
  "unit_quaternion q \<longleftrightarrow> (quat_w q)\<^sup>2 + (quat_x q)\<^sup>2 + (quat_y q)\<^sup>2 + (quat_z q)\<^sup>2 = 1"

text \<open>The homogeneous transform with rotation block \<open>R\<close> and translation \<open>t\<close>.\<close>

fun homogeneous :: "mat3 \<Rightarrow> vec3 \<Rightarrow> mat" where
  "homogeneous ((a11, a12, a13), (a21, a22, a23), (a31, a32, a33)) (x, y, z) =
     [[a11, a12, a13, x], [a21, a22, a23, y], [a31, a32, a33, z], [0, 0, 0, 1]]"

text \<open>
  The nominal angle of sector \<open>i\<close> of an obstacle-distance message, in degrees: the
  angle offset plus \<open>i\<close> increments, as the comment above
  \<^verbatim>\<open>send_obstacle_distance_message\<close> derives them.
\<close>

fun sector_angle :: "mavlink_message \<Rightarrow> nat \<Rightarrow> real option" where
  "sector_angle (Obstacle_Distance t st ds inc mn mx increment_f angle_offset) i =
     Some (angle_offset + real i * increment_f)"
| "sector_angle _ i = None"

text \<open>The text notifications among the messages sent.\<close>

fun is_statustext :: "mavlink_message \<Rightarrow> bool" where
  "is_statustext (Statustext sev txt) = True"
| "is_statustext _ = False"

definition statustexts :: "state \<Rightarrow> mavlink_message list" where
  "statustexts s = filter is_statustext (sent s)"

text \<open>
  Confidence ticks, each with the tracker confidence current when it fires: the
  acquisition loop has stored a pose sample with that confidence before the tick.
\<close>

definition observe :: "pose_data \<Rightarrow> nat \<Rightarrow> state \<Rightarrow> state" where
  "observe d c s = s\<lparr>data := Some (d\<lparr>tracker_confidence := c\<rparr>)\<rparr>"

fun confidence_ticks :: "pose_data \<Rightarrow> nat list \<Rightarrow> state \<Rightarrow> state" where
  "confidence_ticks d [] s = s"
| "confidence_ticks d (c # cs) s =
     confidence_ticks d cs
       (caught (observe d c s) (send_confidence_level_dummy_message (observe d c s)))"


fun vec3_add :: "vec3 \<Rightarrow> vec3 \<Rightarrow> vec3" where
  "vec3_add (a, b, c) (x, y, z) = (a + x, b + y, c + z)"

text \<open>A homogeneous transform whose rotation block is a proper rotation.\<close>

definition rigid_transform :: "mat \<Rightarrow> bool" where
  "rigid_transform H \<longleftrightarrow> (\<exists>R t. is_rotation R \<and> H = homogeneous R t)"

text \<open>The rotation blocks of the fixed transforms, of a yaw and of a pose sample.\<close>

definition mount_rotation :: mat3 where
  "mount_rotation = ((0, 0, - 1), (1, 0, 0), (0, - 1, 0))"

definition downward_rotation :: mat3 where
  "downward_rotation = ((0, 1, 0), (1, 0, 0), (0, 0, - 1))"

definition yaw_rotation :: "real \<Rightarrow> mat3" where
  "yaw_rotation a = ((cos a, - sin a, 0), (sin a, cos a, 0), (0, 0, 1))"

definition quaternion_rotation :: "quaternion \<Rightarrow> mat3" where
  "quaternion_rotation q =
     rotation_block (quaternion_matrix (quat_w q, quat_x q, quat_y q, quat_z q))"

text \<open>
  What one turn of the sampling loop stores for sector \<open>i\<close>; the disparity, in pixels,
  at the place of the matcher's output that sector \<open>i\<close> is computed from; and the
  shape under which every sample of the loop lies inside that output.
\<close>

definition sector_entry :: "vec3 list list \<Rightarrow> nat \<Rightarrow> 16 word" where
  "sector_entry points_3D i = to_uint16 (linalg_norm (points_3D ! sample_index i ! 150) * 100)"

definition sampled_disparity :: "int list list \<Rightarrow> nat \<Rightarrow> real" where
  "sampled_disparity raw i = real_of_int (raw ! sample_index i ! (max_disp + 150)) / 16"

definition depth_shape :: "int list list \<Rightarrow> bool" where
  "depth_shape raw \<longleftrightarrow>
     (\<forall>i < 72. sample_index i < length raw \<and> max_disp + 150 < length (raw ! sample_index i))"

subsection \<open>Concrete inputs\<close>

text \<open>
  A pose sample one metre along the camera's first axis, with the identity
  orientation and confidence Low; and a stand-in for \<^verbatim>\<open>tf.euler_from_matrix\<close> where a
  run needs one.
\<close>

definition example_pose :: pose_data where
  "example_pose = \<lparr> translation = \<lparr> vec_x = 1, vec_y = 0, vec_z = 0 \<rparr>,
     rotation = \<lparr> quat_w = 1, quat_x = 0, quat_y = 0, quat_z = 0 \<rparr>,
     tracker_confidence = 1 \<rparr>"

definition no_euler :: "mat \<Rightarrow> real \<times> real \<times> real" where
  "no_euler H = (0, 0, 0)"

text \<open>
  A pose sample with a tilted orientation; the output of the matcher, 300 rows of 412
  values, when no pixel is matched (the marker of an unmatched pixel is one below the
  minimum disparity, \<open>15 * 16\<close> in fixed point); and two arrays of reprojected points,
  all 656 metres ahead in the first and all 30000 kilometres ahead in the second.
\<close>

definition tilted_pose :: pose_data where
  "tilted_pose = \<lparr> translation = \<lparr> vec_x = 1, vec_y = 2, vec_z = 2 \<rparr>,
     rotation = \<lparr> quat_w = 3 / 5, quat_x = 4 / 5, quat_y = 0, quat_z = 0 \<rparr>,
     tracker_confidence = 3 \<rparr>"

definition invalid_everywhere :: "int list list" where
  "invalid_everywhere = replicate 300 (replicate 412 240)"

definition far_points :: "vec3 list list" where
  "far_points = replicate 300 (replicate 300 (0, 0, 656))"

definition beyond_points :: "vec3 list list" where
  "beyond_points = replicate 300 (replicate 300 (0, 0, 30000000))"

text \<open>
  Three outputs of the matcher for a scene with a near obstacle (disparity 100) in
  front of a far background (disparity 20). The first 112 columns are the margin the
  script crops, so column 262 is column 150 of the cropped image. In the first the
  obstacle fills the image left of that column, in the second the image right of it,
  in the third the rows above row 152.
\<close>

definition left_obstacle :: "int list list" where
  "left_obstacle = replicate 300 (replicate 262 1600 @ replicate 150 320)"

definition right_obstacle :: "int list list" where
  "right_obstacle = replicate 300 (replicate 263 320 @ replicate 149 1600)"

definition top_obstacle :: "int list list" where
  "top_obstacle = replicate 152 (replicate 412 1600) @ replicate 148 (replicate 412 320)"

section \<open>Rigid transforms\<close>

subsection \<open>Products of explicit arrays\<close>

lemma upt_0_4: "[0..<4] = [0, 1, 2, Suc 2]"
  by (simp add: upt_conv_Cons numeral_3_eq_3 numeral_2_eq_2 eval_nat_numeral)

lemma dot_4x4:
  "dot [[a11, a12, a13, a14], [a21, a22, a23, a24], [a31, a32, a33, a34], [a41, a42, a43, a44]]
       [[b11, b12, b13, b14], [b21, b22, b23, b24], [b31, b32, b33, b34], [b41, b42, b43, b44]]
   = [[a11 * b11 + a12 * b21 + a13 * b31 + a14 * b41, a11 * b12 + a12 * b22 + a13 * b32 + a14 * b42,
       a11 * b13 + a12 * b23 + a13 * b33 + a14 * b43, a11 * b14 + a12 * b24 + a13 * b34 + a14 * b44],
      [a21 * b11 + a22 * b21 + a23 * b31 + a24 * b41, a21 * b12 + a22 * b22 + a23 * b32 + a24 * b42,
       a21 * b13 + a22 * b23 + a23 * b33 + a24 * b43, a21 * b14 + a22 * b24 + a23 * b34 + a24 * b44],
      [a31 * b11 + a32 * b21 + a33 * b31 + a34 * b41, a31 * b12 + a32 * b22 + a33 * b32 + a34 * b42,
       a31 * b13 + a32 * b23 + a33 * b33 + a34 * b43, a31 * b14 + a32 * b24 + a33 * b34 + a34 * b44],
      [a41 * b11 + a42 * b21 + a43 * b31 + a44 * b41, a41 * b12 + a42 * b22 + a43 * b32 + a44 * b42,
       a41 * b13 + a42 * b23 + a43 * b33 + a44 * b43, a41 * b14 + a42 * b24 + a43 * b34 + a44 * b44]]"
  by (simp add: dot_def upt_0_4 add.assoc)

lemma set_elem_4x4:
  "set_elem [[a11, a12, a13, a14], r2, r3, r4] 0 3 v = [[a11, a12, a13, v], r2, r3, r4]"
  "set_elem [r1, [a21, a22, a23, a24], r3, r4] 1 3 v = [r1, [a21, a22, a23, v], r3, r4]"
  "set_elem [r1, [a21, a22, a23, a24], r3, r4] (Suc 0) 3 v = [r1, [a21, a22, a23, v], r3, r4]"
  "set_elem [r1, r2, [a31, a32, a33, a34], r4] 2 3 v = [r1, r2, [a31, a32, a33, v], r4]"
  by (simp_all add: set_elem_def numeral_3_eq_3 numeral_2_eq_2)

lemma mat3_apply_zero [simp]: "mat3_apply R (0, 0, 0) = (0, 0, 0)"
  by (cases R rule: mat3_transpose.cases) simp

lemma vec3_add_zero [simp]: "vec3_add (0, 0, 0) t = t" "vec3_add t (0, 0, 0) = t"
  by (cases t rule: prod_cases3; simp)+

lemma dot_homogeneous:
  "dot (homogeneous R1 t1) (homogeneous R2 t2)
     = homogeneous (mat3_mul R1 R2) (vec3_add (mat3_apply R1 t2) t1)"
  by (cases R1 rule: mat3_transpose.cases; cases R2 rule: mat3_transpose.cases;
      cases t1 rule: prod_cases3; cases t2 rule: prod_cases3)
     (simp add: dot_4x4)

lemma rotation_block_homogeneous: "rotation_block (homogeneous R t) = R"
  by (cases R rule: mat3_transpose.cases; cases t rule: prod_cases3)
     (simp add: rotation_block_def)


lemma linalg_inv_homogeneous:
  "linalg_inv (homogeneous R t)
     = homogeneous (mat3_transpose R)
         (case mat3_apply (mat3_transpose R) t of (a, b, c) \<Rightarrow> (- a, - b, - c))"
  by (cases R rule: mat3_transpose.cases; cases t rule: prod_cases3)
     (simp add: linalg_inv_def)

subsection \<open>Rotations are closed under product and transposition\<close>

lemma mat3_mul_assoc: "mat3_mul (mat3_mul A B) C = mat3_mul A (mat3_mul B C)"
  by (cases A rule: mat3_transpose.cases; cases B rule: mat3_transpose.cases;
      cases C rule: mat3_transpose.cases) (simp add: algebra_simps)

lemma mat3_transpose_mul:
  "mat3_transpose (mat3_mul A B) = mat3_mul (mat3_transpose B) (mat3_transpose A)"
  by (cases A rule: mat3_transpose.cases; cases B rule: mat3_transpose.cases)
     (simp add: algebra_simps)

lemma mat3_mul_identity [simp]: "mat3_mul identity3 A = A" "mat3_mul A identity3 = A"
  by (cases A rule: mat3_transpose.cases; simp add: identity3_def)+

lemma mat3_det_mul: "mat3_det (mat3_mul A B) = mat3_det A * mat3_det B"
  by (cases A rule: mat3_transpose.cases; cases B rule: mat3_transpose.cases)
     (simp add: algebra_simps)

lemma orthonormal_mul:
  assumes "orthonormal A" "orthonormal B"
  shows "orthonormal (mat3_mul A B)"
proof -
  have "mat3_mul (mat3_mul A B) (mat3_transpose (mat3_mul A B))
        = mat3_mul A (mat3_mul (mat3_mul B (mat3_transpose B)) (mat3_transpose A))"
    by (simp add: mat3_transpose_mul mat3_mul_assoc)
  moreover have "mat3_mul (mat3_transpose (mat3_mul A B)) (mat3_mul A B)
        = mat3_mul (mat3_transpose B) (mat3_mul (mat3_mul (mat3_transpose A) A) B)"
    by (simp add: mat3_transpose_mul mat3_mul_assoc)
  ultimately show ?thesis
    using assms by (simp add: orthonormal_def)
qed

lemma is_rotation_mul: "is_rotation A \<Longrightarrow> is_rotation B \<Longrightarrow> is_rotation (mat3_mul A B)"
  by (simp add: is_rotation_def orthonormal_mul mat3_det_mul)

lemma is_rotation_transpose: "is_rotation R \<Longrightarrow> is_rotation (mat3_transpose R)"
  by (cases R rule: mat3_transpose.cases)
     (simp add: is_rotation_def orthonormal_def algebra_simps)

lemma is_rotation_identity3: "is_rotation identity3"
  by (simp add: is_rotation_def orthonormal_def identity3_def)

lemma rigid_transformI: "is_rotation R \<Longrightarrow> rigid_transform (homogeneous R t)"
  unfolding rigid_transform_def by blast

lemma rigid_transform_dot:
  "rigid_transform A \<Longrightarrow> rigid_transform B \<Longrightarrow> rigid_transform (dot A B)"
  unfolding rigid_transform_def
  by (metis dot_homogeneous is_rotation_mul)

lemma rigid_transform_linalg_inv: "rigid_transform A \<Longrightarrow> rigid_transform (linalg_inv A)"
  unfolding rigid_transform_def
  by (metis linalg_inv_homogeneous is_rotation_transpose)

subsection \<open>The transforms the script composes\<close>

lemma is_rotation_mount: "is_rotation mount_rotation"
  by (simp add: is_rotation_def orthonormal_def identity3_def mount_rotation_def)

lemma is_rotation_downward: "is_rotation downward_rotation"
  by (simp add: is_rotation_def orthonormal_def identity3_def downward_rotation_def)

lemma H_aeroRef_T265Ref_eq:
  "H_aeroRef_T265Ref orientation = homogeneous mount_rotation (0, 0, 0)"
  by (simp add: H_aeroRef_T265Ref_def mount_rotation_def)

lemma H_T265body_aeroBody_eq:
  "H_T265body_aeroBody orientation
     = homogeneous (if orientation = 1 then downward_rotation else mat3_transpose mount_rotation)
         (0, 0, 0)"
  by (simp add: H_T265body_aeroBody_def H_aeroRef_T265Ref_eq linalg_inv_homogeneous)
     (simp add: mount_rotation_def downward_rotation_def)

text \<open>\<open>linalg_inv\<close> returns the inverse at the mount transform.\<close>

lemma linalg_inv_mount:
  "dot (H_aeroRef_T265Ref orientation) (linalg_inv (H_aeroRef_T265Ref orientation)) = identity4
   \<and> dot (linalg_inv (H_aeroRef_T265Ref orientation)) (H_aeroRef_T265Ref orientation) = identity4"
  by (simp add: H_aeroRef_T265Ref_def linalg_inv_def dot_4x4 identity4_def)

lemma H_body_camera_eq:
  "H_body_camera cfg
     = homogeneous identity3 (body_offset_x cfg, body_offset_y cfg, body_offset_z cfg)"
  by (simp add: H_body_camera_def euler_matrix_def Let_def set_elem_4x4 identity3_def)

text \<open>\<open>linalg_inv\<close> returns the inverse at the body offset.\<close>

lemma linalg_inv_offset:
  "dot (H_body_camera cfg) (linalg_inv (H_body_camera cfg)) = identity4
   \<and> dot (linalg_inv (H_body_camera cfg)) (H_body_camera cfg) = identity4"
  by (simp add: H_body_camera_eq identity3_def linalg_inv_def dot_4x4 identity4_def)

lemma euler_matrix_yaw: "euler_matrix 0 0 yaw = homogeneous (yaw_rotation yaw) (0, 0, 0)"
  by (simp add: euler_matrix_def yaw_rotation_def Let_def)

lemma is_rotation_yaw: "is_rotation (yaw_rotation a)"
proof -
  have "cos a * cos a + sin a * sin a = 1" "sin a * sin a + cos a * cos a = 1"
    using sin_cos_squared_add [of a] by (simp_all add: power2_eq_square add.commute)
  then show ?thesis
    by (simp add: is_rotation_def orthonormal_def identity3_def yaw_rotation_def)
qed

lemma H_T265Ref_T265body_eq:
  "H_T265Ref_T265body scale d
     = homogeneous (quaternion_rotation (rotation d))
         (vec_x (translation d) * scale, vec_y (translation d) * scale,
          vec_z (translation d) * scale)"
  by (simp add: H_T265Ref_T265body_def quaternion_rotation_def quaternion_matrix_def Let_def
      identity4_def rotation_block_def set_elem_4x4)

text \<open>For a unit quaternion the normalisation multiplies every product by 2.\<close>

lemma quaternion_rotation_unit:
  assumes "unit_quaternion q"
  shows "quaternion_rotation q =
    ((1 - 2 * (quat_y q * quat_y q) - 2 * (quat_z q * quat_z q),
      2 * (quat_x q * quat_y q) - 2 * (quat_z q * quat_w q),
      2 * (quat_x q * quat_z q) + 2 * (quat_y q * quat_w q)),
     (2 * (quat_x q * quat_y q) + 2 * (quat_z q * quat_w q),
      1 - 2 * (quat_x q * quat_x q) - 2 * (quat_z q * quat_z q),
      2 * (quat_y q * quat_z q) - 2 * (quat_x q * quat_w q)),
     (2 * (quat_x q * quat_z q) - 2 * (quat_y q * quat_w q),
      2 * (quat_y q * quat_z q) + 2 * (quat_x q * quat_w q),
      1 - 2 * (quat_x q * quat_x q) - 2 * (quat_y q * quat_y q)))"
proof -
  have n: "quat_w q * quat_w q + quat_x q * quat_x q + quat_y q * quat_y q
             + quat_z q * quat_z q = 1"
    using assms by (simp add: unit_quaternion_def power2_eq_square)
  have eps: "\<not> (1::real) < EPS"
    by (simp add: EPS_def)
  have k: "\<And>a b :: real. a * sqrt 2 * (b * sqrt 2) = 2 * (a * b)"
    by simp
  show ?thesis
    by (simp add: quaternion_rotation_def quaternion_matrix_def Let_def n eps rotation_block_def k)
qed

lemma is_rotation_quaternion:
  assumes "unit_quaternion q"
  shows "is_rotation (quaternion_rotation q)"
proof -
  define w x y z where "w = quat_w q" and "x = quat_x q" and "y = quat_y q" and "z = quat_z q"
  have n: "w * w + x * x + y * y + z * z = 1"
    using assms by (simp add: unit_quaternion_def power2_eq_square w_def x_def y_def z_def)
  have R: "quaternion_rotation q =
    ((1 - 2 * (y * y) - 2 * (z * z), 2 * (x * y) - 2 * (z * w), 2 * (x * z) + 2 * (y * w)),
     (2 * (x * y) + 2 * (z * w), 1 - 2 * (x * x) - 2 * (z * z), 2 * (y * z) - 2 * (x * w)),
     (2 * (x * z) - 2 * (y * w), 2 * (y * z) + 2 * (x * w), 1 - 2 * (x * x) - 2 * (y * y)))"
    using quaternion_rotation_unit [OF assms] by (simp add: w_def x_def y_def z_def)
  show ?thesis
    unfolding R is_rotation_def orthonormal_def identity3_def
    using n by (simp; algebra)
qed

lemma rigid_mount: "rigid_transform (H_aeroRef_T265Ref orientation)"
  by (simp add: H_aeroRef_T265Ref_eq rigid_transformI is_rotation_mount)

lemma rigid_body: "rigid_transform (H_T265body_aeroBody orientation)"
  by (simp add: H_T265body_aeroBody_eq rigid_transformI is_rotation_downward
      is_rotation_transpose is_rotation_mount)

lemma rigid_offset: "rigid_transform (H_body_camera cfg)"
  by (simp add: H_body_camera_eq rigid_transformI is_rotation_identity3)

lemma rigid_yaw: "rigid_transform (euler_matrix 0 0 yaw)"
  by (simp add: euler_matrix_yaw rigid_transformI is_rotation_yaw)

lemma rigid_sample:
  "unit_quaternion (rotation d) \<Longrightarrow> rigid_transform (H_T265Ref_T265body scale d)"
  by (simp add: H_T265Ref_T265body_eq rigid_transformI is_rotation_quaternion)

subsection \<open>The navigation pose\<close>

text \<open>The transform is computed unless the compass is enabled and no heading is there.\<close>

lemma navigation_pose_returns:
  "compass_enabled cfg = 1 \<longrightarrow> heading \<noteq> None \<Longrightarrow>
   \<exists>H. navigation_pose cfg heading scale d = Inr H"
  by (auto simp: navigation_pose_def Let_def split: option.splits)

lemma navigation_pose_rigid_transform:
  assumes "unit_quaternion (rotation d)" "navigation_pose cfg heading scale d = Inr H"
  shows "rigid_transform H"
proof -
  let ?H0 = "dot (H_aeroRef_T265Ref (camera_orientation cfg))
                (dot (H_T265Ref_T265body scale d)
                     (H_T265body_aeroBody (camera_orientation cfg)))"
  let ?H1 = "if body_offset_enabled cfg = 1
             then dot (H_body_camera cfg) (dot ?H0 (linalg_inv (H_body_camera cfg)))
             else ?H0"
  have r0: "rigid_transform ?H0"
    by (intro rigid_transform_dot rigid_mount rigid_body rigid_sample assms(1))
  have r1: "rigid_transform ?H1"
    using r0 by (simp add: rigid_transform_dot rigid_offset rigid_transform_linalg_inv)
  have "H = ?H1 \<or> (\<exists>yaw. H = dot ?H1 (euler_matrix 0 0 yaw))"
    using assms(2) by (auto simp: navigation_pose_def Let_def split: if_splits option.splits)
  then show ?thesis
    using r1 by (auto simp: rigid_transform_dot rigid_yaw)
qed

text \<open>
  C8. For every mount orientation, forward, downward or the fall-back, every pose
  sample with a unit quaternion, every scale factor and every setting of the offset
  and of the compass, the navigation pose is computed (given a heading when the
  compass is enabled) and is rigid: its rotation block is orthonormal with
  determinant 1, above the row \<open>[0, 0, 0, 1]\<close>. Floats are taken as reals.
\<close>

theorem navigation_pose_is_rigid:
  "unit_quaternion (rotation d) \<Longrightarrow> compass_enabled cfg = 1 \<longrightarrow> heading \<noteq> None \<Longrightarrow>
   \<exists>H. navigation_pose cfg heading scale d = Inr H
       \<and> orthonormal (rotation_block H) \<and> mat3_det (rotation_block H) = 1
       \<and> H ! 3 = [0, 0, 0, 1]"
proof -
  assume u: "unit_quaternion (rotation d)"
    and c: "compass_enabled cfg = 1 \<longrightarrow> heading \<noteq> None"
  obtain H where H: "navigation_pose cfg heading scale d = Inr H"
    using navigation_pose_returns [OF c] by blast
  obtain R t where R: "is_rotation R" "H = homogeneous R t"
    using navigation_pose_rigid_transform [OF u H] by (auto simp: rigid_transform_def)
  have "H ! 3 = [0, 0, 0, 1]"
    unfolding R(2) by (cases R rule: mat3_transpose.cases; cases t rule: prod_cases3) simp
  then show ?thesis
    using H R by (auto simp: rotation_block_homogeneous is_rotation_def)
qed

theorem navigation_pose_is_rigid_witness:
  "unit_quaternion (rotation tilted_pose)
   \<and> navigation_pose (default_config\<lparr>arg_camera_orientation := Some 1\<rparr>) None 1 tilted_pose
       = Inr [[- 24 / 25, 0, - 7 / 25, - 2], [0, 1, 0, 1], [7 / 25, 0, - 24 / 25, - 2],
              [0, 0, 0, 1]]
   \<and> orthonormal ((- 24 / 25, 0, - 7 / 25), (0, 1, 0), (7 / 25, 0, - 24 / 25))
   \<and> mat3_det ((- 24 / 25, 0, - 7 / 25), (0, 1, 0), (7 / 25, 0, - 24 / 25)) = 1"
proof -
  have u: "unit_quaternion (rotation tilted_pose)"
    by (simp add: tilted_pose_def unit_quaternion_def power2_eq_square)
  have c: "compass_enabled (default_config\<lparr>arg_camera_orientation := Some 1\<rparr>) = 1
           \<longrightarrow> (None :: real option) \<noteq> None"
    by (simp add: default_config_def)
  have e: "navigation_pose (default_config\<lparr>arg_camera_orientation := Some 1\<rparr>) None 1 tilted_pose
       = Inr [[- 24 / 25, 0, - 7 / 25, - 2], [0, 1, 0, 1], [7 / 25, 0, - 24 / 25, - 2],
              [0, 0, 0, 1]]"
    by (simp add: navigation_pose_def Let_def default_config_def camera_orientation_def
        H_aeroRef_T265Ref_eq H_T265body_aeroBody_eq H_T265Ref_T265body_eq
        quaternion_rotation_unit [OF u] dot_homogeneous)
       (simp add: tilted_pose_def mount_rotation_def downward_rotation_def dot_4x4)
  show ?thesis
    using u e navigation_pose_is_rigid [OF u c, of 1]
    by (simp add: rotation_block_def)
qed





section \<open>Stereo depth\<close>

subsection \<open>The sampling loop\<close>

lemma sample_step_length:
  "sample_step pts i ds = Inr ds' \<Longrightarrow> length ds' = length ds"
  by (auto simp: sample_step_def split: if_splits)

lemma sample_loop_length:
  "sample_loop pts is ds = Inr ds' \<Longrightarrow> length ds' = length ds"
proof (induction "is" arbitrary: ds)
  case Nil
  then show ?case by simp
next
  case (Cons i "is")
  then show ?case
    by (auto split: sum.splits dest: sample_step_length)
qed

text \<open>After the loop a sector holds its own sample, wherever the loop passed.\<close>

lemma sample_loop_nth:
  "sample_loop pts is ds = Inr ds' \<Longrightarrow> j < length ds \<Longrightarrow>
   ds' ! j = (if j \<in> set is then sector_entry pts j else ds ! j)"
proof (induction "is" arbitrary: ds)
  case Nil
  then show ?case by simp
next
  case (Cons i "is")
  from Cons.prems(1) obtain ds1
    where s1: "sample_step pts i ds = Inr ds1" and s2: "sample_loop pts is ds1 = Inr ds'"
    by (auto split: sum.splits)
  have ds1: "ds1 = ds[i := sector_entry pts i]"
    using s1 by (auto simp: sample_step_def sector_entry_def split: if_splits)
  have "ds' ! j = (if j \<in> set is then sector_entry pts j else ds1 ! j)"
    using Cons.IH [OF s2] Cons.prems(2) ds1 by simp
  then show ?case
    using ds1 Cons.prems(2) by (auto simp: nth_list_update)
qed

lemma sample_loop_returns:
  "\<forall>i \<in> set is. sample_index i < length pts \<and> 150 < length (pts ! sample_index i)
       \<and> i < length ds
   \<Longrightarrow> \<exists>ds'. sample_loop pts is ds = Inr ds'"
proof (induction "is" arbitrary: ds)
  case Nil
  then show ?case by simp
next
  case (Cons i "is")
  have "sample_step pts i ds = Inr (ds[i := sector_entry pts i])"
    using Cons.prems by (simp add: sample_step_def sector_entry_def)
  moreover have "\<exists>ds'. sample_loop pts is (ds[i := sector_entry pts i]) = Inr ds'"
    using Cons.prems by (intro Cons.IH) simp
  ultimately show ?case by simp
qed

lemma store_distances_length:
  "store_distances pts s = Inr s' \<Longrightarrow> length (distances s') = length (distances s)"
  by (auto simp: store_distances_def split: sum.splits dest: sample_loop_length)

lemma store_distances_nth:
  "store_distances pts s = Inr s' \<Longrightarrow> length (distances s) = 72 \<Longrightarrow> i < 72 \<Longrightarrow>
   distances s' ! i = sector_entry pts i"
  by (auto simp: store_distances_def split: sum.splits dest!: sample_loop_nth [where j = i])

lemma store_distances_returns:
  "length (distances s) = 72 \<Longrightarrow>
   \<forall>i < 72. sample_index i < length pts \<and> 150 < length (pts ! sample_index i) \<Longrightarrow>
   \<exists>s'. store_distances pts s = Inr s'"
proof -
  assume len: "length (distances s) = 72"
    and sh: "\<forall>i < 72. sample_index i < length pts \<and> 150 < length (pts ! sample_index i)"
  have "\<exists>ds'. sample_loop pts [0..<72] (distances s) = Inr ds'"
    using len sh by (intro sample_loop_returns) simp
  then show ?thesis
    by (auto simp: store_distances_def)
qed

lemma linalg_norm_nonneg: "0 \<le> linalg_norm p"
  by (cases p rule: prod_cases3) (simp add: linalg_norm_def)

lemma to_uint16_in_range:
  "0 \<le> v \<Longrightarrow> v < 2 ^ 31 \<Longrightarrow> to_uint16 v = word_of_int \<lfloor>v\<rfloor>"
proof -
  assume v: "0 \<le> v" "v < 2 ^ 31"
  have "\<lfloor>v\<rfloor> < 2 ^ 31"
    using v(2) by (simp add: floor_less_iff)
  moreover have "0 \<le> \<lfloor>v\<rfloor>"
    using v(1) by simp
  ultimately show ?thesis
    using v(1) by (simp add: to_uint16_def Let_def)
qed

lemma to_uint16_beyond: "2 ^ 31 \<le> v \<Longrightarrow> to_uint16 v = 0"
proof -
  assume v: "2 ^ 31 \<le> v"
  have "(2 :: int) ^ 31 \<le> \<lfloor>v\<rfloor>"
    using v by (simp add: le_floor_iff)
  moreover have "0 \<le> v"
    using v by (rule order_trans [rotated]) simp
  ultimately show ?thesis
    by (simp add: to_uint16_def Let_def)
qed

text \<open>
  C10, as stated: every distance of 655.36 m or more is stored modulo \<open>2 ^ 16\<close>. A point
  30000 km ahead is 3000000000 cm away, which is 24064 modulo \<open>2 ^ 16\<close>; the entry
  stored is 0, because the value is outside the 32-bit range of the conversion.
\<close>

theorem distant_point_stored_as_zero:
  "(case store_distances beyond_points init_state of
      Inl e \<Rightarrow> None
    | Inr s' \<Rightarrow> Some (uint (distances s' ! 5))) = Some 0
   \<and> 655.36 \<le> linalg_norm (beyond_points ! sample_index 5 ! 150)
   \<and> \<lfloor>linalg_norm (beyond_points ! sample_index 5 ! 150) * 100\<rfloor> mod 65536 = 24064"
proof -
  have len: "length (distances init_state) = 72"
    by (simp add: init_state_def)
  have n: "linalg_norm (beyond_points ! sample_index 5 ! 150) = 30000000"
    by (simp add: beyond_points_def sample_index_def linalg_norm_def)
  have "\<forall>i < 72. sample_index i < length beyond_points
          \<and> 150 < length (beyond_points ! sample_index i)"
    by (simp add: beyond_points_def sample_index_def)
  then obtain s' where s': "store_distances beyond_points init_state = Inr s'"
    using store_distances_returns [OF len] by blast
  have "distances s' ! 5 = to_uint16 (30000000 * 100)"
    using store_distances_nth [OF s' len, of 5] by (simp add: sector_entry_def n)
  also have "\<dots> = 0"
    by (rule to_uint16_beyond) simp
  finally show ?thesis
    using s' by (simp add: n)
qed

text \<open>
  C10, amended: after the sampling loop, entry \<open>i\<close> of the distance profile is the norm
  of the point \<^verbatim>\<open>points_3D[i * 4, 150, :]\<close>, times 100, with the fraction dropped and
  reduced modulo \<open>2 ^ 16\<close>, as long as that distance is below \<open>2 ^ 31\<close> cm: the entry
  lies between 0 and 65535, it is the truncated distance in centimetres below
  655.36 m, and from 655.36 m on it is smaller than that distance. The norm and the
  product are taken over the reals.
\<close>

theorem distance_entry_is_truncated_norm:
  "store_distances points_3D s = Inr s' \<Longrightarrow> length (distances s) = 72 \<Longrightarrow> i < 72 \<Longrightarrow>
   linalg_norm (points_3D ! sample_index i ! 150) * 100 < 2 ^ 31 \<Longrightarrow>
   uint (distances s' ! i)
     = \<lfloor>linalg_norm (points_3D ! sample_index i ! 150) * 100\<rfloor> mod 65536
   \<and> 0 \<le> uint (distances s' ! i) \<and> uint (distances s' ! i) < 65536
   \<and> (linalg_norm (points_3D ! sample_index i ! 150) < 655.36 \<longrightarrow>
        uint (distances s' ! i) = \<lfloor>linalg_norm (points_3D ! sample_index i ! 150) * 100\<rfloor>)
   \<and> (655.36 \<le> linalg_norm (points_3D ! sample_index i ! 150) \<longrightarrow>
        uint (distances s' ! i) < \<lfloor>linalg_norm (points_3D ! sample_index i ! 150) * 100\<rfloor>)"
proof -
  assume st: "store_distances points_3D s = Inr s'" and len: "length (distances s) = 72"
    and i: "i < 72"
  let ?n = "linalg_norm (points_3D ! sample_index i ! 150)"
  assume range: "?n * 100 < 2 ^ 31"
  have nn: "0 \<le> ?n"
    by (rule linalg_norm_nonneg)
  have "to_uint16 (?n * 100) = word_of_int \<lfloor>?n * 100\<rfloor>"
    using nn range by (intro to_uint16_in_range) simp_all
  then have e: "uint (distances s' ! i) = \<lfloor>?n * 100\<rfloor> mod 65536"
    using store_distances_nth [OF st len i]
    by (simp add: sector_entry_def uint_word_of_int)
  have f0: "0 \<le> \<lfloor>?n * 100\<rfloor>"
    using nn by simp
  have small: "?n < 655.36 \<Longrightarrow> \<lfloor>?n * 100\<rfloor> mod 65536 = \<lfloor>?n * 100\<rfloor>"
  proof -
    assume "?n < 655.36"
    then have "?n * 100 < 65536" by simp
    then have "\<lfloor>?n * 100\<rfloor> < 65536" by (simp add: floor_less_iff)
    then show ?thesis using f0 by simp
  qed
  have big: "655.36 \<le> ?n \<Longrightarrow> \<lfloor>?n * 100\<rfloor> mod 65536 < \<lfloor>?n * 100\<rfloor>"
  proof -
    assume "655.36 \<le> ?n"
    then have "65536 \<le> ?n * 100" by simp
    then have "65536 \<le> \<lfloor>?n * 100\<rfloor>" by (simp add: le_floor_iff)
    moreover have "\<lfloor>?n * 100\<rfloor> mod 65536 < 65536" by simp
    ultimately show ?thesis by linarith
  qed
  show ?thesis
    using e small big by simp
qed

theorem distance_entry_is_truncated_norm_witness:
  "length (distances init_state) = 72
   \<and> linalg_norm (far_points ! sample_index 5 ! 150) = 656
   \<and> (\<exists>s'. store_distances far_points init_state = Inr s' \<and> uint (distances s' ! 5) = 64)"
proof -
  have len: "length (distances init_state) = 72"
    by (simp add: init_state_def)
  have n: "linalg_norm (far_points ! sample_index 5 ! 150) = 656"
    by (simp add: far_points_def sample_index_def linalg_norm_def)
  have range: "linalg_norm (far_points ! sample_index 5 ! 150) * 100 < 2 ^ 31"
    by (simp add: n)
  have "\<forall>i < 72. sample_index i < length far_points
          \<and> 150 < length (far_points ! sample_index i)"
    by (simp add: far_points_def sample_index_def)
  then obtain s' where s': "store_distances far_points init_state = Inr s'"
    using store_distances_returns [OF len] by blast
  have "uint (distances s' ! 5) = 64"
    using distance_entry_is_truncated_norm [OF s' len _ range] by (simp add: n)
  then show ?thesis
    using s' len n by blast
qed

subsection \<open>From the disparity to the sampled point\<close>

lemma reprojectImageTo3D_length:
  "length (reprojectImageTo3D disp q) = length disp"
  "y < length disp \<Longrightarrow> length (reprojectImageTo3D disp q ! y) = length (disp ! y)"
  by (simp_all add: reprojectImageTo3D_def)

lemma reprojectImageTo3D_nth:
  "y < length disp \<Longrightarrow> x < length (disp ! y) \<Longrightarrow>
   reprojectImageTo3D disp q ! y ! x = reproject_pixel q (real x) (real y) (disp ! y ! x)"
  by (simp add: reprojectImageTo3D_def)

lemma crop_length:
  "length (crop_disparity (to_pixel_disparity raw)) = length raw"
  "y < length raw \<Longrightarrow>
   length (crop_disparity (to_pixel_disparity raw) ! y) = length (raw ! y) - max_disp"
  by (simp_all add: crop_disparity_def to_pixel_disparity_def)

lemma crop_nth:
  "y < length raw \<Longrightarrow> max_disp + x < length (raw ! y) \<Longrightarrow>
   crop_disparity (to_pixel_disparity raw) ! y ! x = real_of_int (raw ! y ! (max_disp + x)) / 16"
  by (simp add: crop_disparity_def to_pixel_disparity_def)

lemma max_disp_eq: "max_disp = 112"
  by (simp add: max_disp_def min_disp_def num_disp_def)

lemma stereo_focal_px_eq: "stereo_focal_px = 150"
proof -
  have "stereo_fov_rad / 2 = pi / 4"
    by (simp add: stereo_fov_rad_def)
  then have "tan (stereo_fov_rad / 2) = 1"
    by (simp only: tan_45)
  then show ?thesis
    by (simp add: stereo_focal_px_def stereo_height_px_def)
qed

lemma reproject_pixel_Q:
  "reproject_pixel (Q T0) x y d
     = ((x - 149.5) / (- d / T0), (y - 149.5) / (- d / T0), 150 / (- d / T0))"
  by (simp add: reproject_pixel_def Q_def stereo_focal_px_eq stereo_cx_def stereo_cy_def
      stereo_height_px_def max_disp_eq Let_def)

lemma linalg_norm_scaled:
  "linalg_norm (a / w, b / w, c / w) = sqrt (a\<^sup>2 + b\<^sup>2 + c\<^sup>2) / \<bar>w\<bar>"
proof -
  have "a / w * (a / w) + b / w * (b / w) + c / w * (c / w) = (a\<^sup>2 + b\<^sup>2 + c\<^sup>2) / w\<^sup>2"
    by (simp add: power2_eq_square add_divide_distrib)
  then show ?thesis
    by (simp add: linalg_norm_def real_sqrt_divide)
qed

lemma sampled_point_norm:
  "linalg_norm (reproject_pixel (Q T0) 150 y d)
     = sqrt (0.25 + (y - 149.5)\<^sup>2 + 22500) * (\<bar>T0\<bar> / \<bar>d\<bar>)"
proof -
  have "linalg_norm (reproject_pixel (Q T0) 150 y d)
        = sqrt ((150 - 149.5)\<^sup>2 + (y - 149.5)\<^sup>2 + 150\<^sup>2) / \<bar>- d / T0\<bar>"
    unfolding reproject_pixel_Q by (rule linalg_norm_scaled)
  also have "(150 - 149.5 :: real)\<^sup>2 = 0.25"
    by (simp add: power2_eq_square)
  finally show ?thesis
    by simp
qed

lemma process_depth_entries:
  assumes sh: "depth_shape raw" and len: "length (distances s) = 72"
  shows "\<exists>s'. process_depth cfg raw s = Inr s' \<and> length (distances s') = 72
     \<and> (\<forall>i < 72. distances s' ! i
          = to_uint16 (sqrt (0.25 + (real (sample_index i) - 149.5)\<^sup>2 + 22500)
                       * (\<bar>extrinsics_T0 cfg\<bar> / \<bar>sampled_disparity raw i\<bar>) * 100))"
proof -
  let ?pts = "reprojectImageTo3D (crop_disparity (to_pixel_disparity raw))
                (Q (extrinsics_T0 cfg))"
  have shape: "\<forall>i < 72. sample_index i < length ?pts \<and> 150 < length (?pts ! sample_index i)"
    using sh by (auto simp: depth_shape_def reprojectImageTo3D_length crop_length)
  obtain s' where s': "store_distances ?pts s = Inr s'"
    using store_distances_returns [OF len shape] by blast
  have pd: "process_depth cfg raw s = Inr s'"
    using s' by (simp add: process_depth_def Let_def)
  have l: "length (distances s') = 72"
    using store_distances_length [OF s'] len by simp
  have "distances s' ! i
          = to_uint16 (sqrt (0.25 + (real (sample_index i) - 149.5)\<^sup>2 + 22500)
                       * (\<bar>extrinsics_T0 cfg\<bar> / \<bar>sampled_disparity raw i\<bar>) * 100)"
    if i: "i < 72" for i
  proof -
    have a: "sample_index i < length raw" "max_disp + 150 < length (raw ! sample_index i)"
      using sh i by (auto simp: depth_shape_def)
    have "?pts ! sample_index i ! 150
            = reproject_pixel (Q (extrinsics_T0 cfg)) 150 (real (sample_index i))
                (sampled_disparity raw i)"
      using a by (simp add: reprojectImageTo3D_nth crop_length crop_nth sampled_disparity_def)
    then show ?thesis
      using store_distances_nth [OF s' len i]
      by (simp add: sector_entry_def sampled_point_norm)
  qed
  then show ?thesis
    using pd l by blast
qed

subsection \<open>A frame in which no pixel is matched\<close>

lemma depth_shape_invalid_everywhere: "depth_shape invalid_everywhere"
  by (simp add: depth_shape_def invalid_everywhere_def sample_index_def max_disp_eq)

lemma sampled_disparity_invalid_everywhere:
  "i < 72 \<Longrightarrow> sampled_disparity invalid_everywhere i = 15"
  by (simp add: sampled_disparity_def invalid_everywhere_def sample_index_def max_disp_eq)

lemma to_uint16_eq:
  "0 \<le> k \<Longrightarrow> k < 2 ^ 31 \<Longrightarrow> real_of_int k \<le> v \<Longrightarrow> v < real_of_int k + 1 \<Longrightarrow>
   to_uint16 v = word_of_int k"
proof -
  assume k: "0 \<le> k" "k < 2 ^ 31" and v: "real_of_int k \<le> v" "v < real_of_int k + 1"
  have f: "\<lfloor>v\<rfloor> = k"
    using v by (intro floor_unique) simp_all
  have "0 \<le> v"
    using k(1) v(1) by simp
  then show ?thesis
    using k f by (simp add: to_uint16_def Let_def)
qed

lemma entry_0:
  "to_uint16 (sqrt (0.25 + (real (sample_index 0) - 149.5)\<^sup>2 + 22500)
              * (\<bar>- 0.064\<bar> / \<bar>15\<bar>) * 100) = 90"
proof -
  have S: "0.25 + (real (sample_index 0) - 149.5)\<^sup>2 + 22500 = (44850.5 :: real)"
    by (simp add: sample_index_def power2_eq_square)
  have lo: "(210.9375 :: real) \<le> sqrt 44850.5"
    by (rule real_le_rsqrt) (simp add: power2_eq_square)
  have hi: "sqrt 44850.5 < (213.28125 :: real)"
    by (rule real_less_lsqrt) (simp_all add: power2_eq_square)
  have "to_uint16 (sqrt 44850.5 * (\<bar>- 0.064\<bar> / \<bar>15\<bar>) * 100) = word_of_int 90"
    using lo hi by (intro to_uint16_eq) simp_all
  then show ?thesis
    unfolding S by simp
qed

lemma entry_37:
  "to_uint16 (sqrt (0.25 + (real (sample_index 37) - 149.5)\<^sup>2 + 22500)
              * (\<bar>- 0.064\<bar> / \<bar>15\<bar>) * 100) = 64"
proof -
  have S: "0.25 + (real (sample_index 37) - 149.5)\<^sup>2 + 22500 = (22502.5 :: real)"
    by (simp add: sample_index_def power2_eq_square)
  have lo: "(150 :: real) \<le> sqrt 22502.5"
    by (rule real_le_rsqrt) (simp add: power2_eq_square)
  have hi: "sqrt 22502.5 < (152.34375 :: real)"
    by (rule real_less_lsqrt) (simp_all add: power2_eq_square)
  have "to_uint16 (sqrt 22502.5 * (\<bar>- 0.064\<bar> / \<bar>15\<bar>) * 100) = word_of_int 64"
    using lo hi by (intro to_uint16_eq) simp_all
  then show ?thesis
    unfolding S by simp
qed

text \<open>
  C2, as stated: a disparity map with every pixel below the minimum valid disparity
  gives a profile that is everywhere the maximum range. With the matcher's marker for
  an unmatched pixel everywhere (disparity 15, below the minimum of 16) and a baseline
  of 6.4 cm, sector 0 holds 90 and sector 37 holds 64: the entries differ from each
  other, and sector 0 from the maximum range of 65 that the messages carry.
\<close>

theorem invalid_disparity_not_clamped:
  "real_of_int 240 / 16 < real min_disp
   \<and> (case process_depth default_config invalid_everywhere init_state of
         Inl e \<Rightarrow> None
       | Inr s' \<Rightarrow> Some (distances s' ! 0, distances s' ! 37)) = Some (90, 64)"
proof -
  have len: "length (distances init_state) = 72"
    by (simp add: init_state_def)
  obtain s' where s': "process_depth default_config invalid_everywhere init_state = Inr s'"
    and e: "\<forall>i < 72. distances s' ! i
          = to_uint16 (sqrt (0.25 + (real (sample_index i) - 149.5)\<^sup>2 + 22500)
              * (\<bar>extrinsics_T0 default_config\<bar> / \<bar>sampled_disparity invalid_everywhere i\<bar>)
              * 100)"
    using process_depth_entries [OF depth_shape_invalid_everywhere len] by blast
  have T: "extrinsics_T0 default_config = - 0.064"
    by (simp add: default_config_def)
  have "distances s' ! 0 = 90"
    using e [rule_format, of 0] entry_0
    by (simp only: T sampled_disparity_invalid_everywhere)
  moreover have "distances s' ! 37 = 64"
    using e [rule_format, of 37] entry_37
    by (simp only: T sampled_disparity_invalid_everywhere)
  ultimately show ?thesis
    using s' by (simp add: min_disp_def)
qed

text \<open>
  C2, amended: for every output of the matcher that covers the sampled places, below
  the minimum valid disparity or not, the depth branch raises no exception and leaves
  a profile of 72 entries that is not clamped: with a non-zero baseline \<open>T0\<close> and a
  non-zero disparity \<open>d\<close> at the place sector \<open>i\<close> is sampled from, entry \<open>i\<close> is
  \<open>100 * \<bar>T0\<bar> / \<bar>d\<bar> * sqrt (0.25 + (4 * i - 149.5)\<^sup>2 + 150\<^sup>2)\<close> with the fraction
  dropped, kept in sixteen bits. (Where \<open>d\<close> or \<open>T0\<close> is zero the float result is not
  finite, which the reals do not model.)
\<close>

theorem distance_profile_from_disparity:
  "depth_shape raw \<Longrightarrow> length (distances s) = 72 \<Longrightarrow> extrinsics_T0 cfg \<noteq> 0 \<Longrightarrow>
   \<forall>i < 72. sampled_disparity raw i \<noteq> 0 \<Longrightarrow>
   \<exists>s'. process_depth cfg raw s = Inr s' \<and> length (distances s') = 72
     \<and> (\<forall>i < 72. distances s' ! i
          = to_uint16 (sqrt (0.25 + (real (sample_index i) - 149.5)\<^sup>2 + 22500)
                       * (\<bar>extrinsics_T0 cfg\<bar> / \<bar>sampled_disparity raw i\<bar>) * 100))"
  using process_depth_entries by blast

theorem distance_profile_from_disparity_witness:
  "depth_shape invalid_everywhere \<and> length (distances init_state) = 72
   \<and> extrinsics_T0 default_config \<noteq> 0
   \<and> (\<exists>s'. process_depth default_config invalid_everywhere init_state = Inr s'
         \<and> length (distances s') = 72 \<and> distances s' ! 37 = 64)"
proof -
  have len: "length (distances init_state) = 72"
    by (simp add: init_state_def)
  have T: "extrinsics_T0 default_config = - 0.064"
    by (simp add: default_config_def)
  have T0: "extrinsics_T0 default_config \<noteq> 0"
    by (simp add: T)
  have d: "\<forall>i < 72. sampled_disparity invalid_everywhere i \<noteq> 0"
    by (simp add: sampled_disparity_invalid_everywhere)
  obtain s' where s': "process_depth default_config invalid_everywhere init_state = Inr s'"
    "length (distances s') = 72"
    and e: "\<forall>i < 72. distances s' ! i
          = to_uint16 (sqrt (0.25 + (real (sample_index i) - 149.5)\<^sup>2 + 22500)
              * (\<bar>extrinsics_T0 default_config\<bar> / \<bar>sampled_disparity invalid_everywhere i\<bar>)
              * 100)"
    using distance_profile_from_disparity [OF depth_shape_invalid_everywhere len T0 d]
    by blast
  have "distances s' ! 37 = 64"
    using e [rule_format, of 37] entry_37
    by (simp only: T sampled_disparity_invalid_everywhere)
  then show ?thesis
    using s' len T0 depth_shape_invalid_everywhere by blast
qed

section \<open>Senders\<close>

lemma slice_72:
  "length ds = 72 \<Longrightarrow> slice 33 38 ds = [ds ! 33, ds ! 34, ds ! 35, ds ! 36, ds ! 37]"
proof -
  assume len: "length ds = 72"
  have d: "\<And>i. i < 72 \<Longrightarrow> drop i ds = ds ! i # drop (Suc i) ds"
    using len by (simp add: Cons_nth_drop_Suc)
  have "drop 33 ds = ds ! 33 # ds ! 34 # ds ! 35 # ds ! 36 # ds ! 37 # drop 38 ds"
    using d[of 33] d[of 34] d[of 35] d[of 36] d[of 37] by simp
  then show ?thesis by (simp add: slice_def)
qed

lemma py_int_np_mean:
  "xs \<noteq> [] \<Longrightarrow>
   py_int (np_mean xs) = Inr \<lfloor>real (sum_list (map unat xs)) / real (length xs)\<rfloor>"
proof -
  assume "xs \<noteq> []"
  have "0 \<le> real (sum_list (map unat xs)) / real (length xs)"
    by (rule divide_nonneg_nonneg) simp_all
  then show ?thesis using \<open>xs \<noteq> []\<close> by (simp add: py_int_def np_mean_def)
qed

text \<open>
  C3. Before any frame has been processed the pose sender and the confidence sender
  return without sending, each behind its test for \<^verbatim>\<open>None\<close>. The distance sender has
  no such test: on the first tick it sends a distance report whose current distance is
  0, the mean of the zero-initialised array.
\<close>

theorem senders_before_first_frame:
  "send_vision_position_message efm init_state = init_state
   \<and> send_confidence_level_dummy_message init_state = Inr init_state
   \<and> send_distance_sensor_message init_state
       = Inr (init_state\<lparr>sent := [Distance_Sensor 0 10 65 0 0 0 0 0]\<rparr>)"
  by (simp add: send_vision_position_message_def send_confidence_level_dummy_message_def
      send_distance_sensor_message_def init_state_def slice_def np_mean_def py_int_def
      send_mavlink_def sum_list_replicate)

text \<open>
  C5, as stated: the current distance of a distance report is the mean of sectors 33
  to 37. With sector 33 at 1 and the others at 0 the mean is 1/5 and the report
  carries 0.
\<close>

theorem distance_report_not_exact_mean:
  "send_distance_sensor_message (init_state\<lparr>distances := (replicate 72 0)[33 := 1]\<rparr>)
     = Inr (init_state\<lparr>distances := (replicate 72 0)[33 := 1],
                       sent := [Distance_Sensor 0 10 65 0 0 0 0 0]\<rparr>)
   \<and> np_mean (slice 33 38 ((replicate 72 0)[33 := 1])) = Some (1 / 5)"
  by (simp add: send_distance_sensor_message_def slice_72 np_mean_def py_int_def
      send_mavlink_def init_state_def)

text \<open>
  C5, amended: with a profile of 72 entries the distance sender sends one distance
  report with minimum range 10, maximum range 65 and, as current distance, the mean
  of sectors 33 to 37 with its fraction dropped; for a profile of 72 entries of 30
  that is exactly 30.
\<close>

theorem distance_report_truncated_mean:
  "length (distances s) = 72 \<Longrightarrow>
   send_distance_sensor_message s
     = Inr (send_mavlink (Distance_Sensor 0 10 65
         \<lfloor>real (unat (distances s ! 33) + unat (distances s ! 34) + unat (distances s ! 35)
                 + unat (distances s ! 36) + unat (distances s ! 37)) / 5\<rfloor> 0 0 0 0) s)
   \<and> (distances s = replicate 72 30 \<longrightarrow>
        send_distance_sensor_message s
          = Inr (send_mavlink (Distance_Sensor 0 10 65 30 0 0 0 0) s))"
  by (simp add: send_distance_sensor_message_def slice_72 py_int_np_mean add.assoc)

theorem distance_report_truncated_mean_witness:
  "length (distances (init_state\<lparr>distances := replicate 72 30\<rparr>)) = 72
   \<and> send_distance_sensor_message (init_state\<lparr>distances := replicate 72 30\<rparr>)
       = Inr (init_state\<lparr>distances := replicate 72 30,
                         sent := [Distance_Sensor 0 10 65 30 0 0 0 0]\<rparr>)"
  using distance_report_truncated_mean [of "init_state\<lparr>distances := replicate 72 30\<rparr>"]
  by (simp add: init_state_def send_mavlink_def)

subsection \<open>Confidence notifications\<close>

lemma tick_same:
  "c < 4 \<Longrightarrow> current_confidence s = Some c \<Longrightarrow>
   statustexts (caught (observe d c s) (send_confidence_level_dummy_message (observe d c s)))
     = statustexts s
   \<and> current_confidence
       (caught (observe d c s) (send_confidence_level_dummy_message (observe d c s)))
     = Some c"
  by (simp add: send_confidence_level_dummy_message_def observe_def caught_def tuple_get_def
      pose_data_confidence_level_def send_mavlink_def statustexts_def Let_def)

lemma tick_change:
  "c < 4 \<Longrightarrow> current_confidence s \<noteq> Some c \<Longrightarrow>
   statustexts (caught (observe d c s) (send_confidence_level_dummy_message (observe d c s)))
     = statustexts s @ [Statustext 3 (''Tracking confidence: '' @ pose_data_confidence_level ! c)]
   \<and> current_confidence
       (caught (observe d c s) (send_confidence_level_dummy_message (observe d c s)))
     = Some c"
  by (auto simp add: send_confidence_level_dummy_message_def observe_def caught_def
      tuple_get_def pose_data_confidence_level_def send_mavlink_def statustexts_def Let_def)

lemma ticks_same:
  "c < 4 \<Longrightarrow> current_confidence s = Some c \<Longrightarrow>
   statustexts (confidence_ticks d (replicate n c) s) = statustexts s
   \<and> current_confidence (confidence_ticks d (replicate n c) s) = Some c"
  by (induction n arbitrary: s) (simp_all add: tick_same)

lemma ticks_append:
  "confidence_ticks d (xs @ ys) s = confidence_ticks d ys (confidence_ticks d xs s)"
  by (induction xs arbitrary: s) simp_all

text \<open>
  C4, as stated: every sequence of confidence ticks over which the confidence changes
  once emits one text notification. From the initial state, a tick at Low and a tick
  at Medium emit two: the first report finds \<^verbatim>\<open>current_confidence\<close> at \<^verbatim>\<open>None\<close> and
  sends a notification of its own.
\<close>

theorem confidence_notifications_at_startup:
  "length (statustexts (confidence_ticks example_pose [1, 2] init_state)) = 2"
  by (simp add: send_confidence_level_dummy_message_def observe_def caught_def tuple_get_def
      pose_data_confidence_level_def send_mavlink_def statustexts_def Let_def init_state_def)

text \<open>
  C4, amended: once the level \<open>a\<close> has been reported, any number of ticks at \<open>a\<close>
  followed by one or more ticks at another level \<open>b\<close> emit exactly one text
  notification, the one that names \<open>b\<close>, however many ticks follow the change.
\<close>

theorem confidence_change_notifies_once:
  "a < 4 \<Longrightarrow> b < 4 \<Longrightarrow> a \<noteq> b \<Longrightarrow> current_confidence s = Some a \<Longrightarrow>
   statustexts (confidence_ticks d (replicate k a @ replicate (Suc m) b) s)
     = statustexts s @ [Statustext 3 (''Tracking confidence: '' @ pose_data_confidence_level ! b)]"
proof -
  assume a: "a < 4" and b: "b < 4" and ab: "a \<noteq> b" and cur: "current_confidence s = Some a"
  let ?s1 = "confidence_ticks d (replicate k a) s"
  let ?s2 = "caught (observe d b ?s1) (send_confidence_level_dummy_message (observe d b ?s1))"
  let ?note = "Statustext 3 (''Tracking confidence: '' @ pose_data_confidence_level ! b)"
  have s1: "statustexts ?s1 = statustexts s" "current_confidence ?s1 = Some a"
    using ticks_same [OF a cur] by simp_all
  have "current_confidence ?s1 \<noteq> Some b"
    using s1(2) ab by simp
  then have s2: "statustexts ?s2 = statustexts ?s1 @ [?note]" "current_confidence ?s2 = Some b"
    using tick_change [OF b] by simp_all
  have "statustexts (confidence_ticks d (replicate m b) ?s2) = statustexts ?s2"
    using ticks_same [OF b s2(2)] by simp
  then show ?thesis
    using s1(1) s2(1) by (simp add: ticks_append)
qed

theorem confidence_change_notifies_once_witness:
  "(1::nat) < 4 \<and> (2::nat) < 4 \<and> (1::nat) \<noteq> 2
   \<and> current_confidence (init_state\<lparr>current_confidence := Some 1\<rparr>) = Some 1
   \<and> statustexts (confidence_ticks example_pose [1, 1, 2, 2, 2]
                    (init_state\<lparr>current_confidence := Some 1\<rparr>))
     = [Statustext 3 ''Tracking confidence: Medium'']"
  using confidence_change_notifies_once
          [of 1 2 "init_state\<lparr>current_confidence := Some 1\<rparr>" example_pose 2 2]
  by (simp add: init_state_def statustexts_def pose_data_confidence_level_def numeral_2_eq_2)

section \<open>Listeners and operator input\<close>

text \<open>
  C1. With the compass enabled, two ATTITUDE messages with yaw 0.1 and then 0.2 leave
  the heading reference at 0.2: the listener stores the yaw of every message, not of
  the first one only.
\<close>

theorem heading_reference_overwritten:
  "run (default_config\<lparr>compass_enabled := 1\<rparr>) efm [Attitude 0.1, Attitude 0.2] init_state
     = Inr (init_state\<lparr>heading_north_yaw := Some 0.2\<rparr>)"
  by (simp add: att_msg_callback_def default_config_def init_state_def)

lemma step_scale_factor_positive:
  "step cfg efm ev s = Inr s' \<Longrightarrow> 0 < scale_factor s \<Longrightarrow>
   (\<forall>v. ev = Operator_Line (Some v) \<longrightarrow> 0 < v) \<Longrightarrow> 0 < scale_factor s'"
  by (cases ev)
    (auto simp: process_frames_def process_pose_def process_depth_def store_distances_def
      Let_def caught_def
      send_vision_position_message_def send_confidence_level_dummy_message_def send_mavlink_def
      send_distance_sensor_message_def att_msg_callback_def scale_update_line_def
      split: option.splits sum.splits if_splits prod.splits)

lemma run_scale_factor_positive:
  "run cfg efm evs s = Inr s' \<Longrightarrow> 0 < scale_factor s \<Longrightarrow>
   (\<forall>v. Operator_Line (Some v) \<in> set evs \<longrightarrow> 0 < v) \<Longrightarrow> 0 < scale_factor s'"
proof (induction evs arbitrary: s)
  case Nil
  then show ?case by simp
next
  case (Cons ev evs)
  from Cons.prems(1) obtain s1
    where s1: "step cfg efm ev s = Inr s1" "run cfg efm evs s1 = Inr s'"
    by (auto split: sum.splits)
  have "0 < scale_factor s1"
    using step_scale_factor_positive [OF s1(1) Cons.prems(2)] Cons.prems(3) by simp
  then show ?case
    using Cons.IH [OF s1(2)] Cons.prems(3) by simp
qed

text \<open>
  C9, as stated: no operator input makes the scale factor zero or negative. The line
  \<^verbatim>\<open>0\<close> is parsed by \<^verbatim>\<open>float\<close> and stored.
\<close>

theorem scale_update_accepts_zero:
  "\<not> 0 < scale_factor (scale_update [Some 0] init_state)"
  by (simp add: scale_update_line_def init_state_def)

text \<open>
  C9, amended: the scale factor starts at 1.0 and is strictly positive in every state
  the program reaches, provided every value the operator enters is strictly
  positive; the input path stores the parsed value as it is, without a check.
\<close>

theorem scale_factor_positive_for_positive_input:
  "run cfg efm evs init_state = Inr s' \<Longrightarrow>
   (\<forall>v. Operator_Line (Some v) \<in> set evs \<longrightarrow> 0 < v) \<Longrightarrow>
   0 < scale_factor s'
   \<and> (scale_thread_alive s' \<longrightarrow> scale_factor (scale_update_line (Some v') s') = v')"
proof -
  assume r: "run cfg efm evs init_state = Inr s'"
    and pos: "\<forall>v. Operator_Line (Some v) \<in> set evs \<longrightarrow> 0 < v"
  have "0 < scale_factor init_state"
    by (simp add: init_state_def)
  then have "0 < scale_factor s'"
    using run_scale_factor_positive [OF r] pos by simp
  then show ?thesis
    by (simp add: scale_update_line_def)
qed

theorem scale_factor_positive_for_positive_input_witness:
  "run (default_config\<lparr>scale_calib_enable := True\<rparr>) no_euler
       [Operator_Line (Some 2), Tick_Vision] init_state
     = Inr (init_state\<lparr>scale_factor := 2\<rparr>)
   \<and> 0 < scale_factor (init_state\<lparr>scale_factor := 2\<rparr>)
   \<and> scale_factor (scale_update_line (Some (- 3)) (init_state\<lparr>scale_factor := 2\<rparr>)) = - 3"
proof -
  have r: "run (default_config\<lparr>scale_calib_enable := True\<rparr>) no_euler
             [Operator_Line (Some 2), Tick_Vision] init_state
           = Inr (init_state\<lparr>scale_factor := 2\<rparr>)"
    by (simp add: default_config_def scale_update_line_def init_state_def
        send_vision_position_message_def)
  have pos: "\<forall>v. Operator_Line (Some v) \<in> set [Operator_Line (Some 2), Tick_Vision]
               \<longrightarrow> (0::real) < v"
    by simp
  show ?thesis
    using scale_factor_positive_for_positive_input [OF r pos, of "- 3"] r
    by (simp add: init_state_def)
qed

section \<open>Reachable states\<close>

lemma step_length:
  "step cfg efm ev s = Inr s' \<Longrightarrow> length (distances s') = length (distances s)"
  by (cases ev)
    (auto simp: process_frames_def process_pose_def process_depth_def Let_def caught_def
      send_vision_position_message_def send_confidence_level_dummy_message_def send_mavlink_def
      send_distance_sensor_message_def att_msg_callback_def scale_update_line_def
      split: option.splits sum.splits if_splits prod.splits dest: store_distances_length)

lemma run_length:
  "run cfg efm evs s = Inr s' \<Longrightarrow> length (distances s') = length (distances s)"
proof (induction evs arbitrary: s)
  case Nil
  then show ?case by simp
next
  case (Cons ev evs)
  then show ?case
    by (auto split: sum.splits dest: step_length)
qed

lemma process_frames_returns:
  "depth_shape raw \<Longrightarrow> length (distances s) = 72 \<Longrightarrow> compass_enabled cfg \<noteq> 1 \<Longrightarrow>
   \<exists>s'. process_frames cfg now pose raw s = Inr s'"
proof -
  assume sh: "depth_shape raw" and len: "length (distances s) = 72"
    and c: "compass_enabled cfg \<noteq> 1"
  show ?thesis
  proof (cases pose)
    case None
    then show ?thesis
      using process_depth_entries [OF sh len] by (auto simp: process_frames_def)
  next
    case (Some d)
    obtain s1 where s1: "process_pose cfg now d s = Inr s1" "distances s1 = distances s"
      using c by (auto simp: process_pose_def navigation_pose_def Let_def)
    then have "length (distances s1) = 72"
      using len by simp
    then show ?thesis
      using process_depth_entries [OF sh] s1 Some by (fastforce simp: process_frames_def)
  qed
qed

text \<open>
  In every state the program reaches from its initial state, through frames, ticks,
  ATTITUDE messages and operator input, the distance profile has exactly 72 entries;
  the obstacle-distance message built from it carries the profile with the increment
  1.25 and the angle offset -45, so that the nominal angle of sector \<open>i\<close> is
  \<open>-45 + 1.25 * i\<close> degrees.
\<close>

lemma distance_profile_keeps_72_entries:
  "run cfg efm evs init_state = Inr s \<Longrightarrow>
   length (distances s) = 72
   \<and> obstacle_distance_message s
       = Obstacle_Distance (current_time s) 0 (distances s) 0 5 65 1.25 (- 45)
   \<and> sector_angle (obstacle_distance_message s) i = Some (- 45 + 1.25 * real i)"
proof -
  assume r: "run cfg efm evs init_state = Inr s"
  have "length (distances s) = 72"
    using run_length [OF r] by (simp add: init_state_def)
  then show ?thesis
    by (simp add: obstacle_distance_message_def)
qed

subsection \<open>What the sampling loop reads\<close>

lemma process_depth_distances:
  "process_depth cfg raw s = Inr s' \<Longrightarrow> s' = s\<lparr>distances := distances s'\<rparr>"
  by (auto simp: process_depth_def store_distances_def Let_def split: sum.splits)

text \<open>
  Two outputs of the matcher that agree at the 72 places \<open>(4 * i, 262)\<close> give the same
  profile: nothing else of the disparity map is read.
\<close>

lemma process_depth_same_samples:
  assumes sh1: "depth_shape raw1" and sh2: "depth_shape raw2"
    and len: "length (distances s) = 72"
    and same: "\<forall>i < 72. sampled_disparity raw1 i = sampled_disparity raw2 i"
  shows "process_depth cfg raw1 s = process_depth cfg raw2 s"
proof -
  obtain s1 where s1: "process_depth cfg raw1 s = Inr s1" "length (distances s1) = 72"
    and e1: "\<forall>i < 72. distances s1 ! i
          = to_uint16 (sqrt (0.25 + (real (sample_index i) - 149.5)\<^sup>2 + 22500)
                       * (\<bar>extrinsics_T0 cfg\<bar> / \<bar>sampled_disparity raw1 i\<bar>) * 100)"
    using process_depth_entries [OF sh1 len] by blast
  obtain s2 where s2: "process_depth cfg raw2 s = Inr s2" "length (distances s2) = 72"
    and e2: "\<forall>i < 72. distances s2 ! i
          = to_uint16 (sqrt (0.25 + (real (sample_index i) - 149.5)\<^sup>2 + 22500)
                       * (\<bar>extrinsics_T0 cfg\<bar> / \<bar>sampled_disparity raw2 i\<bar>) * 100)"
    using process_depth_entries [OF sh2 len] by blast
  have "distances s1 = distances s2"
    using s1(2) s2(2) e1 e2 same by (simp add: list_eq_iff_nth_eq)
  then have "s1 = s2"
    using process_depth_distances [OF s1(1)] process_depth_distances [OF s2(1)] by simp
  then show ?thesis
    using s1(1) s2(1) by simp
qed

lemma depth_shape_obstacles:
  "depth_shape left_obstacle" "depth_shape right_obstacle" "depth_shape top_obstacle"
  by (auto simp: depth_shape_def left_obstacle_def right_obstacle_def top_obstacle_def
      sample_index_def max_disp_eq nth_append)

lemma sampled_disparity_sideways:
  "i < 72 \<Longrightarrow> sampled_disparity left_obstacle i = 20"
  "i < 72 \<Longrightarrow> sampled_disparity right_obstacle i = 20"
  by (simp_all add: sampled_disparity_def left_obstacle_def right_obstacle_def
      sample_index_def max_disp_eq nth_append)

lemma sampled_disparity_top:
  "sampled_disparity top_obstacle 0 = 100" "sampled_disparity top_obstacle 71 = 20"
  by (simp_all add: sampled_disparity_def top_obstacle_def sample_index_def max_disp_eq
      nth_append)

lemma entry_0_far:
  "to_uint16 (sqrt (0.25 + (real (sample_index 0) - 149.5)\<^sup>2 + 22500)
              * (\<bar>- 0.064\<bar> / \<bar>20\<bar>) * 100) = 67"
proof -
  have S: "0.25 + (real (sample_index 0) - 149.5)\<^sup>2 + 22500 = (44850.5 :: real)"
    by (simp add: sample_index_def power2_eq_square)
  have lo: "(209.375 :: real) \<le> sqrt 44850.5"
    by (rule real_le_rsqrt) (simp add: power2_eq_square)
  have hi: "sqrt 44850.5 < (212.5 :: real)"
    by (rule real_less_lsqrt) (simp_all add: power2_eq_square)
  have "to_uint16 (sqrt 44850.5 * (\<bar>- 0.064\<bar> / \<bar>20\<bar>) * 100) = word_of_int 67"
    using lo hi by (intro to_uint16_eq) simp_all
  then show ?thesis
    unfolding S by simp
qed

lemma entry_0_near:
  "to_uint16 (sqrt (0.25 + (real (sample_index 0) - 149.5)\<^sup>2 + 22500)
              * (\<bar>- 0.064\<bar> / \<bar>100\<bar>) * 100) = 13"
proof -
  have S: "0.25 + (real (sample_index 0) - 149.5)\<^sup>2 + 22500 = (44850.5 :: real)"
    by (simp add: sample_index_def power2_eq_square)
  have lo: "(203.125 :: real) \<le> sqrt 44850.5"
    by (rule real_le_rsqrt) (simp add: power2_eq_square)
  have hi: "sqrt 44850.5 < (218.75 :: real)"
    by (rule real_less_lsqrt) (simp_all add: power2_eq_square)
  have "to_uint16 (sqrt 44850.5 * (\<bar>- 0.064\<bar> / \<bar>100\<bar>) * 100) = word_of_int 13"
    using lo hi by (intro to_uint16_eq) simp_all
  then show ?thesis
    unfolding S by simp
qed

lemma entry_71_far:
  "to_uint16 (sqrt (0.25 + (real (sample_index 71) - 149.5)\<^sup>2 + 22500)
              * (\<bar>- 0.064\<bar> / \<bar>20\<bar>) * 100) = 64"
proof -
  have S: "0.25 + (real (sample_index 71) - 149.5)\<^sup>2 + 22500 = (40590.5 :: real)"
    by (simp add: sample_index_def power2_eq_square)
  have lo: "(200 :: real) \<le> sqrt 40590.5"
    by (rule real_le_rsqrt) (simp add: power2_eq_square)
  have hi: "sqrt 40590.5 < (203.125 :: real)"
    by (rule real_less_lsqrt) (simp_all add: power2_eq_square)
  have "to_uint16 (sqrt 40590.5 * (\<bar>- 0.064\<bar> / \<bar>20\<bar>) * 100) = word_of_int 64"
    using lo hi by (intro to_uint16_eq) simp_all
  then show ?thesis
    unfolding S by simp
qed

text \<open>
  C6. The profile keeps its 72 entries and the message its offset and increment, but
  the 72 samples are not 72 columns of the image: the loop reads
  \<^verbatim>\<open>points_3D[i * 4, 150, :]\<close>, row \<open>4 * i\<close> of the one column 150, from the top of the
  image to the bottom. With a baseline of 6.4 cm, a near obstacle that fills the left
  of the image and one that fills the right give the same profile, sector 0 at 67 and
  sector 71 at 64, the far background in both; a near obstacle that fills the top of
  the image brings sector 0 down to 13.
\<close>

theorem profile_samples_one_column:
  "process_depth default_config left_obstacle init_state
     = process_depth default_config right_obstacle init_state
   \<and> (case process_depth default_config left_obstacle init_state of
         Inl e \<Rightarrow> None
       | Inr s' \<Rightarrow> Some (distances s' ! 0, distances s' ! 71)) = Some (67, 64)
   \<and> (case process_depth default_config top_obstacle init_state of
         Inl e \<Rightarrow> None
       | Inr s' \<Rightarrow> Some (distances s' ! 0, distances s' ! 71)) = Some (13, 64)"
proof -
  have len: "length (distances init_state) = 72"
    by (simp add: init_state_def)
  have T: "extrinsics_T0 default_config = - 0.064"
    by (simp add: default_config_def)
  have same: "process_depth default_config left_obstacle init_state
                = process_depth default_config right_obstacle init_state"
    by (rule process_depth_same_samples [OF depth_shape_obstacles(1,2) len])
       (simp add: sampled_disparity_sideways)
  obtain s1 where s1: "process_depth default_config left_obstacle init_state = Inr s1"
    and e1: "\<forall>i < 72. distances s1 ! i
          = to_uint16 (sqrt (0.25 + (real (sample_index i) - 149.5)\<^sup>2 + 22500)
              * (\<bar>extrinsics_T0 default_config\<bar> / \<bar>sampled_disparity left_obstacle i\<bar>)
              * 100)"
    using process_depth_entries [OF depth_shape_obstacles(1) len] by blast
  have l0: "distances s1 ! 0 = 67"
    using e1 [rule_format, of 0] entry_0_far
    by (simp only: T sampled_disparity_sideways)
  have l71: "distances s1 ! 71 = 64"
    using e1 [rule_format, of 71] entry_71_far
    by (simp only: T sampled_disparity_sideways)
  obtain s2 where s2: "process_depth default_config top_obstacle init_state = Inr s2"
    and e2: "\<forall>i < 72. distances s2 ! i
          = to_uint16 (sqrt (0.25 + (real (sample_index i) - 149.5)\<^sup>2 + 22500)
              * (\<bar>extrinsics_T0 default_config\<bar> / \<bar>sampled_disparity top_obstacle i\<bar>)
              * 100)"
    using process_depth_entries [OF depth_shape_obstacles(3) len] by blast
  have t0: "distances s2 ! 0 = 13"
    using e2 [rule_format, of 0] entry_0_near
    by (simp only: T sampled_disparity_top)
  have t71: "distances s2 ! 71 = 64"
    using e2 [rule_format, of 71] entry_71_far
    by (simp only: T sampled_disparity_top)
  have left: "(case process_depth default_config left_obstacle init_state of
         Inl e \<Rightarrow> None
       | Inr s' \<Rightarrow> Some (distances s' ! 0, distances s' ! 71)) = Some (67, 64)"
    using s1 l0 l71 by simp
  have top: "(case process_depth default_config top_obstacle init_state of
         Inl e \<Rightarrow> None
       | Inr s' \<Rightarrow> Some (distances s' ! 0, distances s' ! 71)) = Some (13, 64)"
    using s2 t0 t71 by simp
  show ?thesis
    by (intro conjI same left top)
qed

end
